theory Spec2Isabelle
  imports Complex_Main
begin

section \<open>Exceptions\<close>

text \<open>
  Every exception the modelled code can raise is a value. The string is the message
  (or, for exceptions raised below the repository's own code, a short description).
\<close>

datatype error =
    AssertionError string
  | AttributeError string
  | TypeError string
  | IndexError string
  | RuntimeError string
  | ValueError string
  | UnboundLocalError string
  | NotImplementedError string

section \<open>Tensors\<close>

text \<open>
  A tensor is its shape and its elements in row-major order, as a contiguous torch
  tensor stores them. Floating-point elements are modelled by \<open>real\<close>: the model
  says what is computed, not how it is rounded. Integer tensors (token ids, class
  indices) hold \<open>int\<close>.

  A tensor that nothing has moved is on the default device, the CPU: the parameters
  that the layers create, the tensors a caller passes in, and what is computed from
  them. A tensor that \<open>.to(device)\<close> has placed is paired with its device.
\<close>

datatype torch_device = CPU | Accelerator string

record 'a tensor =
  shape :: "nat list"
  data :: "'a list"

text \<open>
  A tensor that a caller passes in need not be contiguous (a slice or a transpose is
  not): \<open>flat_viewable\<close> says whether its strides allow \<open>x.view(-1)\<close>. Its \<open>data\<close> are
  its elements in row-major order of its indices, wherever the storage holds them.
\<close>

record 'a strided = "'a tensor" +
  flat_viewable :: bool

definition numel :: "'a tensor \<Rightarrow> nat" where
  "numel t = prod_list (shape t)"

definition wf_tensor :: "'a tensor \<Rightarrow> bool" where
  "wf_tensor t = (length (data t) = prod_list (shape t))"

text \<open>All multi-indices of a shape, in row-major order.\<close>

primrec indices :: "nat list \<Rightarrow> nat list list" where
  "indices [] = [[]]"
| "indices (d # ds) = concat (map (\<lambda>i. map ((#) i) (indices ds)) [0..<d])"

text \<open>The row-major offset of a multi-index.\<close>

definition ravel :: "nat list \<Rightarrow> nat list \<Rightarrow> nat" where
  "ravel s ix = foldl (\<lambda>acc (d, i). acc * d + i) 0 (zip s ix)"

definition elt :: "'a tensor \<Rightarrow> nat list \<Rightarrow> 'a" where
  "elt t ix = data t ! ravel (shape t) ix"

definition tabulate :: "nat list \<Rightarrow> (nat list \<Rightarrow> 'a) \<Rightarrow> 'a tensor" where
  "tabulate s f = \<lparr>shape = s, data = map f (indices s)\<rparr>"

text \<open>
  A parameter tensor of a freshly constructed layer: torch draws the initial values
  at random, so they are an input of the model, one value per storage offset.
\<close>

definition fresh :: "(nat \<Rightarrow> real) \<Rightarrow> nat list \<Rightarrow> real tensor" where
  "fresh init s = \<lparr>shape = s, data = map init [0..<prod_list s]\<rparr>"

section \<open>The layers of torch.nn that the models are built from\<close>

text \<open>
  The random number generator that dropout draws from: the stream of its coming
  keep (True) or drop (False) decisions.
\<close>

type_synonym rng = "nat \<Rightarrow> bool"

definition draw :: "nat \<Rightarrow> rng \<Rightarrow> bool list \<times> rng" where
  "draw n g = (map g [0..<n], (\<lambda>i. g (i + n)))"

subsection \<open>nn.Dropout\<close>

record Dropout =
  p :: real
  training :: bool

text \<open>A module is constructed in training mode; the probability must lie in [0, 1].\<close>

definition nn_Dropout :: "real \<Rightarrow> error + Dropout" where
  "nn_Dropout q =
     (if q < 0 \<or> 1 < q then Inl (ValueError ''dropout probability has to be between 0 and 1'')
      else Inr \<lparr>p = q, training = True\<rparr>)"

text \<open>
  Outside training, with probability 0 and on an empty tensor, dropout returns its
  input and draws nothing. With probability 1 everything is zeroed. Otherwise each
  element is kept, scaled by 1 / (1 - p), or zeroed, as the generator decides.
\<close>

definition Dropout_forward :: "Dropout \<Rightarrow> rng \<Rightarrow> real tensor \<Rightarrow> real tensor \<times> rng" where
  "Dropout_forward d g x =
     (if p d = 0 \<or> \<not> training d \<or> numel x = 0 then (x, g)
      else if p d = 1 then (x\<lparr>data := map (\<lambda>v. 0) (data x)\<rparr>, g)
      else (case draw (numel x) g of (keeps, g') \<Rightarrow>
              (x\<lparr>data := map2 (\<lambda>keep v. if keep then v / (1 - p d) else 0) keeps (data x)\<rparr>, g')))"

subsection \<open>nn.Embedding\<close>

record Embedding =
  emb_weight :: "real tensor"

definition nn_Embedding :: "(nat \<Rightarrow> real) \<Rightarrow> int \<Rightarrow> int \<Rightarrow> error + Embedding" where
  "nn_Embedding init num_embeddings embedding_dim =
     (if num_embeddings < 0 \<or> embedding_dim < 0
      then Inl (RuntimeError ''Trying to create tensor with negative dimension'')
      else Inr \<lparr>emb_weight = fresh init [nat num_embeddings, nat embedding_dim]\<rparr>)"

text \<open>
  The lookup appends the embedding width to the shape of the index tensor; an index
  outside the table raises.
\<close>

definition Embedding_forward :: "Embedding \<Rightarrow> int tensor \<Rightarrow> error + real tensor" where
  "Embedding_forward e src =
     (let num = shape (emb_weight e) ! 0; width = shape (emb_weight e) ! 1 in
      if \<exists>i \<in> set (data src). i < 0 \<or> int num \<le> i
      then Inl (IndexError ''index out of range in self'')
      else Inr (tabulate (shape src @ [width])
                  (\<lambda>ix. elt (emb_weight e) [nat (elt src (butlast ix)), last ix])))"

subsection \<open>nn.Linear\<close>

record Linear =
  lin_weight :: "real tensor"
  lin_bias :: "real tensor"

definition nn_Linear :: "(nat \<Rightarrow> real) \<Rightarrow> (nat \<Rightarrow> real) \<Rightarrow> int \<Rightarrow> int \<Rightarrow> error + Linear" where
  "nn_Linear init_w init_b in_features out_features =
     (if in_features < 0 \<or> out_features < 0
      then Inl (RuntimeError ''Trying to create tensor with negative dimension'')
      else Inr \<lparr>lin_weight = fresh init_w [nat out_features, nat in_features],
                lin_bias = fresh init_b [nat out_features]\<rparr>)"

text \<open>
  The affine map on the last dimension: \<open>y[.., o] = sum_i x[.., i] * W[o, i] + b[o]\<close>.
  No activation is part of it.
\<close>

definition Linear_forward :: "Linear \<Rightarrow> real tensor \<Rightarrow> error + real tensor" where
  "Linear_forward l x =
     (let out_f = shape (lin_weight l) ! 0; in_f = shape (lin_weight l) ! 1 in
      if shape x = [] \<or> last (shape x) \<noteq> in_f
      then Inl (RuntimeError ''mat1 and mat2 shapes cannot be multiplied'')
      else Inr (tabulate (butlast (shape x) @ [out_f])
                  (\<lambda>ix. (\<Sum>i \<leftarrow> [0..<in_f]. elt x (butlast ix @ [i]) * elt (lin_weight l) [last ix, i])
                        + elt (lin_bias l) [last ix])))"

subsection \<open>nn.Conv1d\<close>

record Conv1d =
  conv_weight :: "real tensor"
  conv_bias :: "real tensor"
  padding :: int

definition nn_Conv1d ::
  "(nat \<Rightarrow> real) \<Rightarrow> (nat \<Rightarrow> real) \<Rightarrow> int \<Rightarrow> int \<Rightarrow> int \<Rightarrow> int \<Rightarrow> error + Conv1d" where
  "nn_Conv1d init_w init_b in_channels out_channels kernel_size pad =
     (if in_channels < 0 \<or> out_channels < 0 \<or> kernel_size < 0
      then Inl (RuntimeError ''Trying to create tensor with negative dimension'')
      else Inr \<lparr>conv_weight = fresh init_w [nat out_channels, nat in_channels, nat kernel_size],
                conv_bias = fresh init_b [nat out_channels],
                padding = pad\<rparr>)"

text \<open>
  Stride 1, dilation 1, zero padding on both sides, on a batched input
  \<open>[batch, channels, length]\<close>:
  \<open>y[b, o, t] = bias[o] + sum_c sum_j W[o, c, j] * xpad[b, c, t + j]\<close>,
  of length \<open>length + 2 * padding - kernel_size + 1\<close>. The weight must have at least
  one output channel (one per group), and the padded input must be at least as long as
  the kernel.
\<close>

definition Conv1d_forward :: "Conv1d \<Rightarrow> real tensor \<Rightarrow> error + real tensor" where
  "Conv1d_forward c x =
     (let out_c = shape (conv_weight c) ! 0; in_c = shape (conv_weight c) ! 1;
          k = shape (conv_weight c) ! 2; pd = nat (padding c); len = shape x ! 2 in
      if length (shape x) \<noteq> 3 then Inl (RuntimeError ''Expected 3D (batched) input to conv1d'')
      else if out_c < 1
      then Inl (RuntimeError ''Given groups=1, expected weight to be at least 1 at dimension 0'')
      else if shape x ! 1 \<noteq> in_c then Inl (RuntimeError ''input channels do not match the weight'')
      else if padding c < 0 then Inl (RuntimeError ''negative padding is not supported'')
      else if len + 2 * pd < k
      then Inl (RuntimeError ''Kernel size can not be greater than actual input size'')
      else Inr (tabulate [shape x ! 0, out_c, len + 2 * pd + 1 - k]
                  (\<lambda>ix. elt (conv_bias c) [ix ! 1]
                     + (\<Sum>ch \<leftarrow> [0..<in_c]. (\<Sum>j \<leftarrow> [0..<k].
                          elt (conv_weight c) [ix ! 1, ch, j]
                          * (if pd \<le> ix ! 2 + j \<and> ix ! 2 + j < pd + len
                             then elt x [ix ! 0, ch, ix ! 2 + j - pd] else 0))))))"

subsection \<open>Tensor operations\<close>

text \<open>
  \<open>x.permute(dims)\<close>: dimension \<open>k\<close> of the result is dimension \<open>dims ! k\<close> of \<open>x\<close>;
  \<open>dims\<close> must name each dimension of \<open>x\<close> once.
\<close>

definition permute :: "'a tensor \<Rightarrow> nat list \<Rightarrow> error + 'a tensor" where
  "permute x dims =
     (if length dims \<noteq> length (shape x) \<or> \<not> distinct dims
         \<or> list_ex (\<lambda>d. length (shape x) \<le> d) dims
      then Inl (RuntimeError ''permute: dims do not match the dimensions of the tensor'')
      else Inr (tabulate (map (\<lambda>d. shape x ! d) dims)
                  (\<lambda>ix. elt x (map (\<lambda>d. ix ! length (takeWhile (\<lambda>e. e \<noteq> d) dims))
                                    [0..<length dims]))))"

definition sigmoid :: "real \<Rightarrow> real" where
  "sigmoid v = 1 / (1 + exp (- v))"

text \<open>
  \<open>F.glu(x, d)\<close>: the first half of dimension \<open>d\<close>, gated by the sigmoid of the
  second half. The dimension must have even size.
\<close>

definition F_glu :: "real tensor \<Rightarrow> nat \<Rightarrow> error + real tensor" where
  "F_glu x d =
     (if length (shape x) \<le> d then Inl (IndexError ''Dimension out of range'')
      else if shape x ! d mod 2 \<noteq> 0 then Inl (RuntimeError ''Halving dimension must be even'')
      else
        (let h = shape x ! d div 2 in
         Inr (tabulate ((shape x)[d := h])
                (\<lambda>ix. elt x ix * sigmoid (elt x (ix[d := ix ! d + h]))))))"

text \<open>
  Elementwise arithmetic broadcasts: shapes are aligned at their last dimension, and a
  dimension of size 1 (or a missing one) is repeated along the other operand's.
\<close>

definition broadcast_shapes :: "nat list \<Rightarrow> nat list \<Rightarrow> nat list option" where
  "broadcast_shapes a b =
     (let n = max (length a) (length b);
          a' = replicate (n - length a) 1 @ a;
          b' = replicate (n - length b) 1 @ b in
      if list_all (\<lambda>(i, j). i = j \<or> i = 1 \<or> j = 1) (zip a' b')
      then Some (map (\<lambda>(i, j). if i = 1 then j else i) (zip a' b'))
      else None)"

definition bcast_elt :: "'a tensor \<Rightarrow> nat list \<Rightarrow> 'a" where
  "bcast_elt t ix =
     elt t (map (\<lambda>(d, i). if d = 1 then 0 else i)
              (zip (shape t) (drop (length ix - length (shape t)) ix)))"

definition tensor_binop ::
  "('a \<Rightarrow> 'a \<Rightarrow> 'a) \<Rightarrow> 'a tensor \<Rightarrow> 'a tensor \<Rightarrow> error + 'a tensor" where
  "tensor_binop f x y =
     (case broadcast_shapes (shape x) (shape y) of
        None \<Rightarrow> Inl (RuntimeError ''The sizes of the tensors must match'')
      | Some s \<Rightarrow> Inr (tabulate s (\<lambda>ix. f (bcast_elt x ix) (bcast_elt y ix))))"

definition tensor_add :: "real tensor \<Rightarrow> real tensor \<Rightarrow> error + real tensor" where
  "tensor_add = tensor_binop (+)"

definition tensor_mul :: "real tensor \<Rightarrow> real tensor \<Rightarrow> error + real tensor" where
  "tensor_mul = tensor_binop (*)"

text \<open>\<open>torch.ones(n)\<close> for an integer \<open>n\<close>.\<close>

definition torch_ones :: "int \<Rightarrow> error + real tensor" where
  "torch_ones n =
     (if n < 0 then Inl (RuntimeError ''Trying to create tensor with negative dimension'')
      else Inr \<lparr>shape = [nat n], data = replicate (nat n) 1\<rparr>)"

text \<open>The index of the first maximal element of a non-empty list.\<close>

definition argmax_list :: "real list \<Rightarrow> nat" where
  "argmax_list vs = fold (\<lambda>i best. if vs ! best < vs ! i then i else best) [0..<length vs] 0"

text \<open>
  \<open>torch.argmax(x, d)\<close>: dimension \<open>d\<close> is reduced to the index of its maximum and
  removed from the shape.
\<close>

definition torch_argmax :: "real tensor \<Rightarrow> nat \<Rightarrow> error + int tensor" where
  "torch_argmax x d =
     (if length (shape x) \<le> d then Inl (IndexError ''Dimension out of range'')
      else if shape x ! d = 0
      then Inl (IndexError ''argmax: Expected reduction dim to have non-zero size'')
      else Inr (tabulate (take d (shape x) @ drop (Suc d) (shape x))
                  (\<lambda>ix. int (argmax_list
                     (map (\<lambda>j. elt x (take d ix @ [j] @ drop d ix)) [0..<shape x ! d])))))"

text \<open>
  \<open>x.view(dims)\<close> of a contiguous tensor, as every tensor that a layer returns is,
  keeps the storage and replaces the shape; one entry may be \<open>-1\<close>, to be inferred
  from the number of elements.
\<close>

definition view :: "'a tensor \<Rightarrow> int list \<Rightarrow> error + 'a tensor" where
  "view x dims =
     (let known = prod_list (map nat (filter (\<lambda>d. d \<noteq> - 1) dims)) in
      if list_ex (\<lambda>d. d < - 1) dims then Inl (RuntimeError ''invalid shape dimension'')
      else if 1 < length (filter (\<lambda>d. d = - 1) dims)
      then Inl (RuntimeError ''only one dimension can be inferred'')
      else if list_ex (\<lambda>d. d = - 1) dims
      then (if known = 0 \<or> numel x mod known \<noteq> 0
            then Inl (RuntimeError ''shape is invalid for input size'')
            else Inr (x\<lparr>shape := map (\<lambda>d. if d = - 1 then numel x div known else nat d) dims\<rparr>))
      else (if known \<noteq> numel x then Inl (RuntimeError ''shape is invalid for input size'')
            else Inr (x\<lparr>shape := map nat dims\<rparr>)))"

text \<open>
  \<open>x.view(-1)\<close> of a tensor that a caller passed in: the flat view when the strides
  allow it, an error otherwise.
\<close>

definition view_flat :: "'a strided \<Rightarrow> error + 'a tensor" where
  "view_flat x =
     (if flat_viewable x then view \<lparr>shape = shape x, data = data x\<rparr> [- 1]
      else Inl (RuntimeError ''view size is not compatible with input tensor size and stride''))"

text \<open>
  Arithmetic with a tensor that has been placed on a device: the other operand is on the
  default device, and torch refuses operands on different devices.
\<close>

definition tensor_mul_placed ::
  "real tensor \<Rightarrow> real tensor \<times> torch_device \<Rightarrow> error + real tensor" where
  "tensor_mul_placed x y =
     (if snd y \<noteq> CPU then Inl (RuntimeError ''Expected all tensors to be on the same device'')
      else tensor_mul x (fst y))"

subsection \<open>Python values\<close>

text \<open>The values that \<open>tensor.tolist()\<close> returns and that keyword arguments carry.\<close>

datatype pyobj = PyNone | PyInt int | PyList "pyobj list"

primrec tolist_from :: "nat list \<Rightarrow> (nat list \<Rightarrow> int) \<Rightarrow> pyobj" where
  "tolist_from [] f = PyInt (f [])"
| "tolist_from (d # ds) f = PyList (map (\<lambda>i. tolist_from ds (\<lambda>ix. f (i # ix))) [0..<d])"

definition tolist :: "int tensor \<Rightarrow> pyobj" where
  "tolist t = tolist_from (shape t) (elt t)"

text \<open>
  \<open>d.get(key, default)\<close> on a dictionary with integer keys: the key is hashed first,
  and a list cannot be hashed.
\<close>

definition dict_get :: "(int \<rightharpoonup> string) \<Rightarrow> pyobj \<Rightarrow> string \<Rightarrow> error + string" where
  "dict_get d key dflt =
     (case key of
        PyList _ \<Rightarrow> Inl (TypeError ''unhashable type: list'')
      | PyInt i \<Rightarrow> Inr (case d i of Some v \<Rightarrow> v | None \<Rightarrow> dflt)
      | PyNone \<Rightarrow> Inr dflt)"

section \<open>Encoder\<close>

text \<open>\<open>Encoder.__init__\<close> stores its two arguments and nothing else.\<close>

record Encoder =
  input_dim :: int
  device :: string

definition Encoder_init :: "int \<Rightarrow> string \<Rightarrow> Encoder" where
  "Encoder_init input_dim' device' = \<lparr>input_dim = input_dim', device = device'\<rparr>"

section \<open>ConvEmbedding\<close>

record ConvEmbedding = Encoder +
  emb_dim :: int
  hid_dim :: int
  kernel_size :: int
  scale :: "real tensor \<times> torch_device"
  tok_embedding :: Embedding
  emb2hid :: Linear
  hid2emb :: Linear
  convs :: "Conv1d list"
  dropout :: Dropout

text \<open>The names of the parameters, for their initial values.\<close>

datatype pname =
    tok_embedding_weight
  | emb2hid_weight | emb2hid_bias
  | hid2emb_weight | hid2emb_bias
  | convs_weight nat | convs_bias nat
  | decoder_weight | decoder_bias

text \<open>A list comprehension whose element expression can raise: the first raise wins.\<close>

primrec collect :: "(error + 'a) list \<Rightarrow> error + 'a list" where
  "collect [] = Inr []"
| "collect (r # rs) =
     (case r of Inl e \<Rightarrow> Inl e
      | Inr x \<Rightarrow> (case collect rs of Inl e \<Rightarrow> Inl e | Inr xs \<Rightarrow> Inr (x # xs)))"

text \<open>
  \<open>tensor.to(device)\<close> places the tensor on the device that the string names. torch
  refuses a string it does not know or a device it cannot reach on this machine: which
  device a string names there, if any, is the parameter \<open>resolve\<close>.
\<close>

definition tensor_to ::
  "(string \<Rightarrow> torch_device option) \<Rightarrow> string \<Rightarrow> 'a tensor \<Rightarrow> error + 'a tensor \<times> torch_device" where
  "tensor_to resolve dev t =
     (case resolve dev of
        None \<Rightarrow> Inl (RuntimeError ''invalid or unavailable device'')
      | Some d \<Rightarrow> Inr (t, d))"

text \<open>
  \<open>ConvEmbedding.__init__\<close>, statement by statement. Only \<open>scale\<close> is moved to the
  device of the encoder; the layers stay where they are created. \<open>range(n_layers)\<close> is empty for
  \<open>n_layers \<le> 0\<close>. Python's \<open>%\<close> and \<open>//\<close> on integers floor, as \<open>mod\<close> and \<open>div\<close> on
  \<open>int\<close> do.
\<close>

definition ConvEmbedding_init ::
  "(string \<Rightarrow> torch_device option) \<Rightarrow> (pname \<Rightarrow> nat \<Rightarrow> real) \<Rightarrow>
   int \<Rightarrow> string \<Rightarrow> int \<Rightarrow> int \<Rightarrow> int \<Rightarrow> int \<Rightarrow> real \<Rightarrow> error + ConvEmbedding" where
  "ConvEmbedding_init resolve init input_dim' device' emb_dim' hid_dim' n_layers kernel_size' dropout' =
     (let base = Encoder_init input_dim' device' in
      if kernel_size' mod 2 \<noteq> 1 then Inl (AssertionError ''Kernel size must be odd!'')
      else
      case tensor_to resolve (device base) \<lparr>shape = [1], data = [sqrt 0.5]\<rparr> of Inl e \<Rightarrow> Inl e | Inr scale' \<Rightarrow>
      case nn_Embedding (init tok_embedding_weight) input_dim' emb_dim' of Inl e \<Rightarrow> Inl e | Inr tok_embedding' \<Rightarrow>
      case nn_Linear (init emb2hid_weight) (init emb2hid_bias) emb_dim' hid_dim' of Inl e \<Rightarrow> Inl e | Inr emb2hid' \<Rightarrow>
      case nn_Linear (init hid2emb_weight) (init hid2emb_bias) hid_dim' emb_dim' of Inl e \<Rightarrow> Inl e | Inr hid2emb' \<Rightarrow>
      case collect (map (\<lambda>i. nn_Conv1d (init (convs_weight i)) (init (convs_bias i))
                                hid_dim' (2 * hid_dim') kernel_size' ((kernel_size' - 1) div 2))
                        [0..<nat n_layers]) of Inl e \<Rightarrow> Inl e | Inr convs' \<Rightarrow>
      case nn_Dropout dropout' of Inl e \<Rightarrow> Inl e | Inr dropout_module \<Rightarrow>
      Inr (Encoder.extend base
             (ConvEmbedding.fields emb_dim' hid_dim' kernel_size' scale' tok_embedding'
                emb2hid' hid2emb' convs' dropout_module)))"

text \<open>
  One pass of the loop body of \<open>ConvEmbedding.forward\<close>, for one layer \<open>conv\<close>. The
  loop's state is the local variables \<open>conv_input\<close> and \<open>conved\<close> (unbound before the
  first pass, hence an option) and the generator that dropout draws from.
\<close>

definition conv_block ::
  "ConvEmbedding \<Rightarrow> Conv1d \<Rightarrow> real tensor \<times> real tensor option \<times> rng \<Rightarrow>
   error + real tensor \<times> real tensor option \<times> rng" where
  "conv_block self conv st =
     (case st of (conv_input, _, g) \<Rightarrow>
      case Dropout_forward (dropout self) g conv_input of (dropped, g') \<Rightarrow>
      case Conv1d_forward conv dropped of Inl e \<Rightarrow> Inl e | Inr conved \<Rightarrow>
      case F_glu conved 1 of Inl e \<Rightarrow> Inl e | Inr conved \<Rightarrow>
      case tensor_add conved conv_input of Inl e \<Rightarrow> Inl e | Inr summed \<Rightarrow>
      case tensor_mul_placed summed (scale self) of Inl e \<Rightarrow> Inl e | Inr conved \<Rightarrow>
      Inr (conved, Some conved, g'))"

primrec conv_loop ::
  "ConvEmbedding \<Rightarrow> Conv1d list \<Rightarrow> real tensor \<times> real tensor option \<times> rng \<Rightarrow>
   error + real tensor \<times> real tensor option \<times> rng" where
  "conv_loop self [] st = Inr st"
| "conv_loop self (conv # rest) st =
     (case conv_block self conv st of Inl e \<Rightarrow> Inl e | Inr st' \<Rightarrow> conv_loop self rest st')"

text \<open>
  \<open>ConvEmbedding.forward\<close>. After the loop, \<open>conved\<close> is read whether or not the loop
  body ever ran.
\<close>

definition ConvEmbedding_forward ::
  "ConvEmbedding \<Rightarrow> rng \<Rightarrow> int tensor \<Rightarrow> error + real tensor \<times> rng" where
  "ConvEmbedding_forward self g src =
     (case Embedding_forward (tok_embedding self) src of Inl e \<Rightarrow> Inl e | Inr tok_embedded \<Rightarrow>
      case Dropout_forward (dropout self) g tok_embedded of (embedded, g1) \<Rightarrow>
      case Linear_forward (emb2hid self) embedded of Inl e \<Rightarrow> Inl e | Inr conv_input \<Rightarrow>
      case permute conv_input [0, 2, 1] of Inl e \<Rightarrow> Inl e | Inr conv_input \<Rightarrow>
      case conv_loop self (convs self) (conv_input, None, g1) of Inl e \<Rightarrow> Inl e
      | Inr (conv_input, conved_var, g2) \<Rightarrow>
      case conved_var of
        None \<Rightarrow> Inl (UnboundLocalError ''local variable conved referenced before assignment'')
      | Some conved \<Rightarrow>
      case permute conved [0, 2, 1] of Inl e \<Rightarrow> Inl e | Inr permuted \<Rightarrow>
      case Linear_forward (hid2emb self) permuted of Inl e \<Rightarrow> Inl e | Inr conved \<Rightarrow>
      Inr (conved, g2))"

section \<open>LinearDecoder\<close>

text \<open>
  \<open>LinearDecoder.__init__\<close> binds \<open>out_dim\<close>, \<open>highway\<close>, \<open>decoder\<close> and \<open>relu\<close>. It
  binds no attribute \<open>device\<close>, and \<open>nn.Module\<close> has none: the field \<open>device_attr\<close>
  says whether a caller has bound one on the object since (\<open>None\<close>: unbound, so reading
  it raises).
\<close>

record LinearDecoder =
  out_dim :: int
  highway :: "(real tensor \<Rightarrow> error + real tensor) option"
  decoder :: Linear
  relu :: bool
  device_attr :: "string option"

definition LinearDecoder_init ::
  "(pname \<Rightarrow> nat \<Rightarrow> real) \<Rightarrow> int \<Rightarrow> int \<Rightarrow> 'l \<Rightarrow> 'a \<Rightarrow> error + LinearDecoder" where
  "LinearDecoder_init init enc_dim out_dim' highway_layers highway_act =
     (case nn_Linear (init decoder_weight) (init decoder_bias) enc_dim out_dim' of Inl e \<Rightarrow> Inl e
      | Inr decoder' \<Rightarrow>
      Inr \<lparr>out_dim = out_dim', highway = None, decoder = decoder', relu = True,
           device_attr = None\<rparr>)"

definition LinearDecoder_forward :: "LinearDecoder \<Rightarrow> real tensor \<Rightarrow> error + real tensor" where
  "LinearDecoder_forward self enc_outs =
     (case (case highway self of None \<Rightarrow> Inr enc_outs | Some hw \<Rightarrow> hw enc_outs) of Inl e \<Rightarrow> Inl e
      | Inr enc_outs \<Rightarrow>
      case Linear_forward (decoder self) enc_outs of Inl e \<Rightarrow> Inl e | Inr linear_out \<Rightarrow>
      Inr linear_out)"

section \<open>GoodWillHunting\<close>

text \<open>
  The encoder of a model is any \<open>Encoder\<close>: the base class, which defines no
  \<open>forward\<close>, or a \<open>ConvEmbedding\<close>.
\<close>

datatype any_encoder = PlainEncoder Encoder | ConvEncoder ConvEmbedding

primrec encoder_device :: "any_encoder \<Rightarrow> string" where
  "encoder_device (PlainEncoder e) = Encoder.device e"
| "encoder_device (ConvEncoder c) = Encoder.device c"

primrec encoder_call :: "any_encoder \<Rightarrow> rng \<Rightarrow> int tensor \<Rightarrow> error + real tensor \<times> rng" where
  "encoder_call (PlainEncoder e) g src =
     Inl (NotImplementedError ''Module [Encoder] is missing the required forward function'')"
| "encoder_call (ConvEncoder c) g src = ConvEmbedding_forward c g src"

text \<open>
  The buffers of a module are a dictionary from names to tensors; the names in
  \<open>non_persistent_buffers_set\<close> are left out of the saved state.
\<close>

record GoodWillHunting =
  encoder :: any_encoder
  decoder :: LinearDecoder
  device :: string
  buffers :: "string \<rightharpoonup> real tensor"
  non_persistent_buffers_set :: "string set"

definition masked_only :: bool where
  "masked_only = True"

definition register_buffer ::
  "string \<Rightarrow> real tensor \<Rightarrow> bool \<Rightarrow> GoodWillHunting \<Rightarrow> GoodWillHunting" where
  "register_buffer name t persistent self =
     self\<lparr>buffers := (buffers self)(name \<mapsto> t),
          non_persistent_buffers_set :=
            (if persistent then non_persistent_buffers_set self - {name}
             else insert name (non_persistent_buffers_set self))\<rparr>"

text \<open>The buffers that \<open>state_dict()\<close> saves with the parameters.\<close>

definition state_dict_buffers :: "GoodWillHunting \<Rightarrow> (string \<rightharpoonup> real tensor)" where
  "state_dict_buffers self =
     (\<lambda>name. if name \<in> non_persistent_buffers_set self then None else buffers self name)"

text \<open>
  \<open>GoodWillHunting.__init__\<close>. The assertion's \<open>and\<close> evaluates its right operand only
  when the left one holds. Further keyword arguments are accepted and ignored.
\<close>

definition GoodWillHunting_init ::
  "any_encoder \<Rightarrow> LinearDecoder \<Rightarrow> string \<Rightarrow> error + GoodWillHunting" where
  "GoodWillHunting_init encoder' categorizer device' =
     (let self = \<lparr>encoder = encoder', decoder = categorizer, device = device',
                  buffers = Map.empty, non_persistent_buffers_set = {}\<rparr> in
      if encoder_device (encoder self) \<noteq> GoodWillHunting.device self
      then Inl (AssertionError ''All devices should be the same !'')
      else
      case device_attr (GoodWillHunting.decoder self) of
        None \<Rightarrow> Inl (AttributeError ''LinearDecoder object has no attribute device'')
      | Some decoder_device \<Rightarrow>
      if decoder_device \<noteq> GoodWillHunting.device self
      then Inl (AssertionError ''All devices should be the same !'')
      else
      case torch_ones (out_dim categorizer) of Inl e \<Rightarrow> Inl e | Inr nll_weight \<Rightarrow>
      Inr (register_buffer ''nll_weight'' nll_weight True self))"

definition GoodWillHunting_forward ::
  "GoodWillHunting \<Rightarrow> rng \<Rightarrow> int tensor \<Rightarrow> error + real tensor \<times> rng" where
  "GoodWillHunting_forward self g src =
     (case encoder_call (encoder self) g src of Inl e \<Rightarrow> Inl e | Inr (encoder_out, g') \<Rightarrow>
      case LinearDecoder_forward (GoodWillHunting.decoder self) encoder_out of Inl e \<Rightarrow> Inl e
      | Inr classifier_out \<Rightarrow>
      Inr (classifier_out, g'))"

text \<open>
  Calling the module, \<open>self(src, **kwargs)\<close>, binds the arguments to the parameters of
  \<open>forward(self, src)\<close>: a keyword that is no parameter, or that names \<open>src\<close> again, is
  a type error.
\<close>

definition GoodWillHunting_call ::
  "GoodWillHunting \<Rightarrow> rng \<Rightarrow> int tensor \<Rightarrow> (string \<times> pyobj) list \<Rightarrow> error + real tensor \<times> rng" where
  "GoodWillHunting_call self g src kwargs =
     (case kwargs of
        [] \<Rightarrow> GoodWillHunting_forward self g src
      | (name, _) # _ \<Rightarrow>
          if name = ''src'' then Inl (TypeError ''forward() got multiple values for argument src'')
          else Inl (TypeError (''forward() got an unexpected keyword argument '' @ name)))"

text \<open>
  \<open>GoodWillHunting.predict\<close>. The items of \<open>out_as_list\<close> are what iterating over the
  value of \<open>tolist()\<close> yields.
\<close>

definition predict ::
  "GoodWillHunting \<Rightarrow> rng \<Rightarrow> int tensor \<Rightarrow> (int \<rightharpoonup> string) \<Rightarrow> error + string list \<times> rng" where
  "predict self g src classnames =
     (case GoodWillHunting_call self g src [(''out'', PyNone)] of Inl e \<Rightarrow> Inl e | Inr (out, g') \<Rightarrow>
      case torch_argmax out 2 of Inl e \<Rightarrow> Inl e | Inr logits \<Rightarrow>
      case tolist logits of
        PyList out_as_list \<Rightarrow>
          (case collect (map (\<lambda>item. dict_get classnames item ''WTF ?'') out_as_list) of
             Inl e \<Rightarrow> Inl e
           | Inr labels \<Rightarrow> Inr (labels, g'))
      | _ \<Rightarrow> Inl (TypeError ''object is not iterable''))"

text \<open>
  The collaborators of \<open>train_epoch\<close> are the caller's: a scorer, whose
  \<open>register_batch\<close> updates the scorer's own state, and a criterion, any callable from
  scores and targets to a loss. Both default to \<open>None\<close>.
\<close>

record 's Scorer =
  scorer_state :: 's
  register_batch :: "'s \<Rightarrow> int tensor \<Rightarrow> int strided \<Rightarrow> int tensor \<Rightarrow> error + 's"

definition train_epoch ::
  "GoodWillHunting \<Rightarrow> rng \<Rightarrow> int tensor \<Rightarrow> int strided \<Rightarrow> 's Scorer option \<Rightarrow>
   (real tensor \<Rightarrow> int tensor \<Rightarrow> error + 'l) option \<Rightarrow> error + 'l \<times> 's Scorer \<times> rng" where
  "train_epoch self g src trg scorer criterion =
     (case GoodWillHunting_call self g src [] of Inl e \<Rightarrow> Inl e | Inr (output, g') \<Rightarrow>
      case scorer of
        None \<Rightarrow> Inl (AttributeError ''NoneType object has no attribute register_batch'')
      | Some sc \<Rightarrow>
      case torch_argmax output 2 of Inl e \<Rightarrow> Inl e | Inr predicted \<Rightarrow>
      case register_batch sc (scorer_state sc) predicted trg src of Inl e \<Rightarrow> Inl e | Inr st \<Rightarrow>
      case view output [- 1, out_dim (GoodWillHunting.decoder self)] of Inl e \<Rightarrow> Inl e
      | Inr flat_output \<Rightarrow>
      case view_flat trg of Inl e \<Rightarrow> Inl e | Inr flat_trg \<Rightarrow>
      case criterion of
        None \<Rightarrow> Inl (TypeError ''NoneType object is not callable'')
      | Some crit \<Rightarrow>
      case crit flat_output flat_trg of Inl e \<Rightarrow> Inl e | Inr loss \<Rightarrow>
      Inr (loss, sc\<lparr>scorer_state := st\<rparr>, g'))"

text \<open>
  \<open>model.eval()\<close> of \<open>nn.Module\<close> switches the training flag of the module and of every
  submodule off. The flag is read by dropout alone.
\<close>

primrec encoder_eval :: "any_encoder \<Rightarrow> any_encoder" where
  "encoder_eval (PlainEncoder e) = PlainEncoder e"
| "encoder_eval (ConvEncoder c) = ConvEncoder (c\<lparr>dropout := (dropout c)\<lparr>training := False\<rparr>\<rparr>)"

definition GoodWillHunting_eval :: "GoodWillHunting \<Rightarrow> GoodWillHunting" where
  "GoodWillHunting_eval self = self\<lparr>encoder := encoder_eval (encoder self)\<rparr>"

text \<open>
  Dropout does nothing, and draws nothing, in an encoder that is in evaluation mode or
  whose dropout probability is 0; the base encoder has no dropout.
\<close>

primrec dropout_inactive :: "any_encoder \<Rightarrow> bool" where
  "dropout_inactive (PlainEncoder e) = True"
| "dropout_inactive (ConvEncoder c) = (\<not> training (dropout c) \<or> p (dropout c) = 0)"

text \<open>
  A call of one of the three methods, with the state of the generator at the call, and
  what the caller gets back. No method assigns to an attribute of \<open>self\<close>, and none
  calls anything that does: the model after the call is the model before it.
\<close>

datatype ('s, 'l) method_call =
    Forward rng "int tensor"
  | Predict rng "int tensor" "int \<rightharpoonup> string"
  | TrainEpoch rng "int tensor" "int strided" "'s Scorer option"
      "(real tensor \<Rightarrow> int tensor \<Rightarrow> error + 'l) option"

datatype ('s, 'l) outcome =
    Raised error
  | Scores "real tensor"
  | Labels "string list"
  | Loss 'l "'s Scorer"

primrec invoke ::
  "GoodWillHunting \<Rightarrow> ('s, 'l) method_call \<Rightarrow> GoodWillHunting \<times> ('s, 'l) outcome" where
  "invoke self (Forward g src) =
     (self, case GoodWillHunting_forward self g src of Inl e \<Rightarrow> Raised e
            | Inr (classifier_out, _) \<Rightarrow> Scores classifier_out)"
| "invoke self (Predict g src classnames) =
     (self, case predict self g src classnames of Inl e \<Rightarrow> Raised e
            | Inr (labels, _) \<Rightarrow> Labels labels)"
| "invoke self (TrainEpoch g src trg scorer criterion) =
     (self, case train_epoch self g src trg scorer criterion of Inl e \<Rightarrow> Raised e
            | Inr (loss, scorer', _) \<Rightarrow> Loss loss scorer')"

primrec invoke_all :: "GoodWillHunting \<Rightarrow> ('s, 'l) method_call list \<Rightarrow> GoodWillHunting" where
  "invoke_all self [] = self"
| "invoke_all self (c # cs) = invoke_all (fst (invoke self c)) cs"

section \<open>Auxiliary notions\<close>

text \<open>
  The shape a convolution layer of \<open>ConvEmbedding\<close> has for hidden width \<open>h\<close> and
  kernel size \<open>k\<close>: twice as many output as input channels, and a padding of
  \<open>(k - 1) / 2\<close> for an odd \<open>k\<close>.
\<close>

definition conv_shaped :: "nat \<Rightarrow> nat \<Rightarrow> Conv1d \<Rightarrow> bool" where
  "conv_shaped h k c =
     (shape (conv_weight c) = [2 * h, h, k] \<and> 2 * padding c + 1 = int k)"

text \<open>
  Inputs for the examples: a machine whose only device is the CPU, and one that has an
  accelerator \<open>cuda\<close> as well; initial parameter
  values that are all zero, or one for every weight outside the convolutions and zero
  elsewhere; generators that keep or drop every element; a scorer that accepts every
  batch; a criterion that returns the same loss for every batch.
\<close>

definition cpu_only :: "string \<Rightarrow> torch_device option" where
  "cpu_only dev = (if dev = ''cpu'' then Some CPU else None)"

definition cpu_and_cuda :: "string \<Rightarrow> torch_device option" where
  "cpu_and_cuda dev =
     (if dev = ''cpu'' then Some CPU
      else if dev = ''cuda'' then Some (Accelerator ''cuda:0'')
      else None)"

definition zero_init :: "pname \<Rightarrow> nat \<Rightarrow> real" where
  "zero_init name i = 0"

definition keep_all :: rng where
  "keep_all i = True"

definition drop_all :: rng where
  "drop_all i = False"

definition unit_init :: "pname \<Rightarrow> nat \<Rightarrow> real" where
  "unit_init name i =
     (if name \<in> {tok_embedding_weight, emb2hid_weight, hid2emb_weight, decoder_weight}
      then 1 else 0)"

definition accepting_scorer :: "unit Scorer" where
  "accepting_scorer = \<lparr>scorer_state = (), register_batch = (\<lambda>st predicted trg src. Inr st)\<rparr>"

definition constant_loss :: "real \<Rightarrow> real tensor \<Rightarrow> int tensor \<Rightarrow> error + real" where
  "constant_loss v scores targets = Inr v"

text \<open>
  The criterion \<open>nn.NLLLoss()\<close> with its default arguments, as \<open>train_epoch\<close> calls it:
  on scores of shape \<open>[n, classes]\<close> and targets of shape \<open>[n]\<close>. It is the mean of
  \<open>- scores[i, targets[i]]\<close> over the targets other than the ignored index \<open>-100\<close>;
  when none is left the mean is not a number, which is \<open>None\<close> here. Other ranks do
  not occur in \<open>train_epoch\<close> and are refused.
\<close>

definition nll_loss :: "real tensor \<Rightarrow> int tensor \<Rightarrow> error + real option" where
  "nll_loss scores targets =
     (if length (shape scores) \<noteq> 2 \<or> length (shape targets) \<noteq> 1
      then Inl (ValueError ''nll_loss: expected scores [n, classes] and targets [n]'')
      else if shape scores ! 0 \<noteq> shape targets ! 0
      then Inl (ValueError ''Expected input batch_size to match target batch_size'')
      else if list_ex (\<lambda>t. t \<noteq> - 100 \<and> (t < 0 \<or> int (shape scores ! 1) \<le> t)) (data targets)
      then Inl (IndexError ''Target is out of bounds'')
      else
        (let counted = filter (\<lambda>i. elt targets [i] \<noteq> - 100) [0..<shape scores ! 0] in
         if counted = [] then Inr None
         else Inr (Some (- (\<Sum>i \<leftarrow> counted. elt scores [i, nat (elt targets [i])])
                         / real (length counted)))))"

text \<open>
  Two models for the examples, built by the constructors. The first has a vocabulary of
  3 tokens, widths 2, one layer with kernel size 3, dropout 0.5 and 4 classes, all
  parameters zero. The second has one token, widths 1, one layer with kernel size 1,
  dropout 0.5 and one class, all weights outside the convolution one. In both, the
  caller has bound the attribute \<open>device\<close> of the decoder before composing the model.
\<close>

definition example_encoder :: ConvEmbedding where
  "example_encoder = projr (ConvEmbedding_init cpu_only zero_init 3 ''cpu'' 2 2 1 3 (1 / 2))"

definition example_decoder :: LinearDecoder where
  "example_decoder =
     (projr (LinearDecoder_init zero_init 2 4 (0::int) ''relu''))\<lparr>device_attr := Some ''cpu''\<rparr>"

definition example_model :: GoodWillHunting where
  "example_model =
     projr (GoodWillHunting_init (ConvEncoder example_encoder) example_decoder ''cpu'')"

definition tiny_encoder :: ConvEmbedding where
  "tiny_encoder = projr (ConvEmbedding_init cpu_only unit_init 1 ''cpu'' 1 1 1 1 (1 / 2))"

definition tiny_decoder :: LinearDecoder where
  "tiny_decoder =
     (projr (LinearDecoder_init unit_init 1 1 (0::int) ''relu''))\<lparr>device_attr := Some ''cpu''\<rparr>"

definition tiny_model :: GoodWillHunting where
  "tiny_model = projr (GoodWillHunting_init (ConvEncoder tiny_encoder) tiny_decoder ''cpu'')"

section \<open>Shapes of the layer outputs\<close>

lemma length_indices: "length (indices s) = prod_list s"
proof (induction s)
  case Nil
  show ?case by simp
next
  case (Cons d ds)
  have "length (concat (map (\<lambda>i. map ((#) i) (indices ds)) [0..<d]))
        = sum_list (map (\<lambda>i. prod_list ds) [0..<d])"
    by (simp add: length_concat comp_def Cons.IH)
  also have "\<dots> = d * prod_list ds"
    by (simp add: sum_list_triv)
  finally show ?case by simp
qed

lemma shape_tabulate: "shape (tabulate s f) = s"
  by (simp add: tabulate_def)

lemma wf_tabulate: "wf_tensor (tabulate s f)"
  by (simp add: tabulate_def wf_tensor_def length_indices)

lemma shape_fresh: "shape (fresh init s) = s"
  by (simp add: fresh_def)

lemma wf_fresh: "wf_tensor (fresh init s)"
  by (simp add: fresh_def wf_tensor_def)

lemma shape_Dropout_forward: "shape (fst (Dropout_forward d g x)) = shape x"
  by (simp add: Dropout_forward_def split: prod.splits)

lemma Embedding_forward_shape:
  assumes "shape (emb_weight e) = [num, width]"
    and "list_all (\<lambda>i. 0 \<le> i \<and> i < int num) (data src)"
  shows "\<exists>y. Embedding_forward e src = Inr y \<and> shape y = shape src @ [width] \<and> wf_tensor y"
  using assms
  by (auto simp: Embedding_forward_def Let_def shape_tabulate wf_tabulate list_all_iff)

lemma Linear_forward_shape:
  assumes "shape (lin_weight l) = [out_f, in_f]" and "shape x = lead @ [in_f]"
  shows "\<exists>y. Linear_forward l x = Inr y \<and> shape y = lead @ [out_f] \<and> wf_tensor y"
  using assms
  by (simp add: Linear_forward_def Let_def shape_tabulate wf_tabulate)

lemma permute_021_shape:
  assumes "shape x = [a, b, c]"
  shows "\<exists>y. permute x [0, 2, 1] = Inr y \<and> shape y = [a, c, b] \<and> wf_tensor y"
  using assms
  by (simp add: permute_def shape_tabulate wf_tabulate)

lemma Conv1d_forward_shape:
  assumes "shape (conv_weight c) = [out_c, in_c, k]" and "0 \<le> padding c"
    and "shape x = [b, in_c, len]" and "k \<le> len + 2 * nat (padding c)" and "1 \<le> out_c"
  shows "\<exists>y. Conv1d_forward c x = Inr y
            \<and> shape y = [b, out_c, len + 2 * nat (padding c) + 1 - k] \<and> wf_tensor y"
  using assms
  by (simp add: Conv1d_forward_def Let_def shape_tabulate wf_tabulate)

lemma F_glu_shape:
  assumes "shape x = [b, 2 * h, len]"
  shows "\<exists>y. F_glu x 1 = Inr y \<and> shape y = [b, h, len] \<and> wf_tensor y"
  using assms
  by (simp add: F_glu_def Let_def shape_tabulate wf_tabulate)

lemma broadcast_shapes_same: "broadcast_shapes s s = Some s"
  by (induction s) (auto simp: broadcast_shapes_def Let_def list_all_iff zip_same intro: map_idI)

lemma zip_replicate_right: "zip s (replicate (length s) c) = map (\<lambda>i. (i, c)) s"
  by (induction s) auto

lemma broadcast_shapes_one: "s \<noteq> [] \<Longrightarrow> broadcast_shapes s [1] = Some s"
proof -
  assume ne: "s \<noteq> []"
  then have n: "max (length s) (length [1::nat]) = length s"
    by (cases s) auto
  have b: "replicate (length s - length [1::nat]) (1::nat) @ [1] = replicate (length s) 1"
    using ne by (cases s) (auto simp: replicate_append_same)
  have m: "map (\<lambda>(i, j). if i = 1 then j else i) (map (\<lambda>i. (i, 1::nat)) s) = s"
    by (rule nth_equalityI) auto
  show ?thesis
    unfolding broadcast_shapes_def Let_def n b
    by (simp add: zip_replicate_right list_all_iff m del: One_nat_def map_map)
qed

lemma tensor_add_shape:
  assumes "shape x = s" and "shape y = s"
  shows "\<exists>z. tensor_add x y = Inr z \<and> shape z = s \<and> wf_tensor z"
  using assms
  by (simp add: tensor_add_def tensor_binop_def broadcast_shapes_same shape_tabulate wf_tabulate)

lemma tensor_mul_scalar_shape:
  assumes "shape x = s" and "s \<noteq> []" and "shape y = [1]"
  shows "\<exists>z. tensor_mul x y = Inr z \<and> shape z = s \<and> wf_tensor z"
  using assms
  by (simp add: tensor_mul_def tensor_binop_def broadcast_shapes_one shape_tabulate wf_tabulate
        del: One_nat_def)

lemma tensor_mul_placed_shape:
  assumes "shape x = s" and "s \<noteq> []" and "shape (fst y) = [1]" and "snd y = CPU"
  shows "\<exists>z. tensor_mul_placed x y = Inr z \<and> shape z = s \<and> wf_tensor z"
  using tensor_mul_scalar_shape [OF assms(1-3)] assms(4)
  by (simp add: tensor_mul_placed_def)

lemma conv_block_shape:
  assumes c: "conv_shaped h k c"
    and sc: "shape (fst (scale self)) = [1]" and cpu: "snd (scale self) = CPU"
    and h: "1 \<le> h"
    and x: "shape conv_input = [b, h, len]" and len: "1 \<le> len"
  shows "\<exists>y g'. conv_block self c (conv_input, cv, g) = Inr (y, Some y, g')
               \<and> shape y = [b, h, len] \<and> wf_tensor y"
proof -
  from c have w: "shape (conv_weight c) = [2 * h, h, k]" and p: "2 * padding c + 1 = int k"
    by (simp_all add: conv_shaped_def)
  from p have p0: "0 \<le> padding c" and pk: "2 * nat (padding c) + 1 = k" by linarith+
  obtain dropped g' where d: "Dropout_forward (dropout self) g conv_input = (dropped, g')"
    by (cases "Dropout_forward (dropout self) g conv_input")
  have ds: "shape dropped = [b, h, len]"
    using shape_Dropout_forward [of "dropout self" g conv_input] d x by simp
  from pk len have fit: "k \<le> len + 2 * nat (padding c)" by linarith
  from h have oc: "1 \<le> 2 * h" by simp
  from Conv1d_forward_shape [OF w p0 ds fit oc]
  obtain y1 where y1: "Conv1d_forward c dropped = Inr y1"
    and s1: "shape y1 = [b, 2 * h, len + 2 * nat (padding c) + 1 - k]" by blast
  from pk have "len + 2 * nat (padding c) + 1 - k = len" by linarith
  with s1 have s1': "shape y1 = [b, 2 * h, len]" by simp
  from F_glu_shape [OF s1'] obtain y2 where y2: "F_glu y1 1 = Inr y2"
    and s2: "shape y2 = [b, h, len]" by blast
  from tensor_add_shape [OF s2 x] obtain y3 where y3: "tensor_add y2 conv_input = Inr y3"
    and s3: "shape y3 = [b, h, len]" by blast
  from tensor_mul_placed_shape [OF s3 _ sc cpu] obtain y4
    where y4: "tensor_mul_placed y3 (scale self) = Inr y4"
    and s4: "shape y4 = [b, h, len]" and w4: "wf_tensor y4" by blast
  show ?thesis
    by (simp add: conv_block_def d y1 y2 y3 y4 s4 w4 del: One_nat_def)
qed

lemma conv_loop_shape:
  assumes "list_all (conv_shaped h k) cs"
    and "shape (fst (scale self)) = [1]" and "snd (scale self) = CPU" and "1 \<le> h"
    and "shape conv_input = [b, h, len]" and "1 \<le> len" and "cs \<noteq> []"
  shows "\<exists>y g'. conv_loop self cs (conv_input, cv, g) = Inr (y, Some y, g')
               \<and> shape y = [b, h, len] \<and> wf_tensor y"
  using assms
proof (induction cs arbitrary: conv_input cv g)
  case Nil
  then show ?case by simp
next
  case (Cons c rest)
  from Cons.prems have c: "conv_shaped h k c" and r: "list_all (conv_shaped h k) rest" by simp_all
  from conv_block_shape [OF c Cons.prems(2-6), of cv g]
  obtain y g' where st: "conv_block self c (conv_input, cv, g) = Inr (y, Some y, g')"
    and sy: "shape y = [b, h, len]" and wy: "wf_tensor y" by blast
  show ?case
  proof (cases "rest = []")
    case True
    with st sy wy show ?thesis by simp
  next
    case False
    from Cons.IH [OF r Cons.prems(2-4) sy Cons.prems(6) False, of "Some y" g'] st
    show ?thesis by simp
  qed
qed


lemma collect_map_Inr:
  "collect (map f xs) = Inr ys \<Longrightarrow> list_all2 (\<lambda>x y. f x = Inr y) xs ys"
  by (induction xs arbitrary: ys) (auto split: sum.splits)

lemma collect_map_all:
  assumes "collect (map f xs) = Inr ys" and "\<And>x y. f x = Inr y \<Longrightarrow> P y"
  shows "list_all P ys"
  using collect_map_Inr [OF assms(1)] assms(2)
  by (fastforce simp: list_all_iff list_all2_conv_all_nth in_set_conv_nth)

lemma collect_map_length: "collect (map f xs) = Inr ys \<Longrightarrow> length ys = length xs"
  by (drule collect_map_Inr) (simp add: list_all2_lengthD)

lemma nn_Conv1d_shaped:
  assumes "nn_Conv1d iw ib h (2 * h) k ((k - 1) div 2) = Inr c" and "k mod 2 = 1"
  shows "conv_shaped (nat h) (nat k) c"
proof -
  from assms(1) have h: "0 \<le> h" and k: "0 \<le> k"
    by (auto simp: nn_Conv1d_def split: if_splits)
  from assms(2) have "2 * ((k - 1) div 2) + 1 = k" by presburger
  with assms(1) h k show ?thesis
    by (auto simp: nn_Conv1d_def conv_shaped_def shape_fresh nat_mult_distrib split: if_splits)
qed

lemma ConvEmbedding_init_Inr:
  assumes "ConvEmbedding_init resolve init input_dim' device' emb_dim' hid_dim' n_layers kernel_size' dropout' = Inr enc"
  shows "kernel_size' mod 2 = 1"
    and "shape (fst (scale enc)) = [1]"
    and "shape (emb_weight (tok_embedding enc)) = [nat input_dim', nat emb_dim']"
    and "shape (lin_weight (emb2hid enc)) = [nat hid_dim', nat emb_dim']"
    and "shape (lin_weight (hid2emb enc)) = [nat emb_dim', nat hid_dim']"
    and "list_all (conv_shaped (nat hid_dim') (nat kernel_size')) (convs enc)"
    and "length (convs enc) = nat n_layers"
    and "0 \<le> input_dim'"
    and "resolve device' = Some (snd (scale enc))"
  using assms
  unfolding ConvEmbedding_init_def Let_def
  by (auto simp: nn_Embedding_def nn_Linear_def shape_fresh tensor_to_def
        Encoder.extend_def ConvEmbedding.fields_def Encoder_init_def collect_map_length
      split: if_splits sum.splits option.splits
      intro!: collect_map_all [where P = "conv_shaped (nat hid_dim') (nat kernel_size')"]
      elim: nn_Conv1d_shaped)

lemma ConvEmbedding_forward_prefix:
  assumes emb: "shape (emb_weight (tok_embedding enc)) = [v, e]"
    and e2h: "shape (lin_weight (emb2hid enc)) = [h, e]"
    and src: "shape src = [b, len]"
    and ids: "list_all (\<lambda>i. 0 \<le> i \<and> i < int v) (data src)"
  shows "\<exists>x g1. ConvEmbedding_forward enc g src =
           (case conv_loop enc (convs enc) (x, None, g1) of Inl e \<Rightarrow> Inl e
            | Inr (conv_input, conved_var, g2) \<Rightarrow>
            case conved_var of
              None \<Rightarrow> Inl (UnboundLocalError ''local variable conved referenced before assignment'')
            | Some conved \<Rightarrow>
            case permute conved [0, 2, 1] of Inl e \<Rightarrow> Inl e | Inr permuted \<Rightarrow>
            case Linear_forward (hid2emb enc) permuted of Inl e \<Rightarrow> Inl e | Inr conved \<Rightarrow>
            Inr (conved, g2))
         \<and> shape x = [b, h, len]"
proof -
  from Embedding_forward_shape [OF emb ids] src
  obtain y0 where y0: "Embedding_forward (tok_embedding enc) src = Inr y0"
    and s0: "shape y0 = [b, len, e]" by auto
  obtain y1 g1 where d: "Dropout_forward (dropout enc) g y0 = (y1, g1)"
    by (cases "Dropout_forward (dropout enc) g y0")
  have s1: "shape y1 = [b, len] @ [e]"
    using shape_Dropout_forward [of "dropout enc" g y0] d s0 by simp
  from Linear_forward_shape [OF e2h s1]
  obtain y2 where y2: "Linear_forward (emb2hid enc) y1 = Inr y2"
    and s2: "shape y2 = [b, len, h]" by auto
  from permute_021_shape [OF s2]
  obtain y3 where y3: "permute y2 [0, 2, 1] = Inr y3" and s3: "shape y3 = [b, h, len]" by blast
  show ?thesis
    by (rule exI [of _ y3], rule exI [of _ g1])
       (simp add: ConvEmbedding_forward_def y0 d y2 y3 s3 del: One_nat_def)
qed

lemma ConvEmbedding_forward_shape:
  assumes emb: "shape (emb_weight (tok_embedding enc)) = [v, e]"
    and e2h: "shape (lin_weight (emb2hid enc)) = [h, e]"
    and h2e: "shape (lin_weight (hid2emb enc)) = [e', h]"
    and sc: "shape (fst (scale enc)) = [1]" and cpu: "snd (scale enc) = CPU" and h: "1 \<le> h"
    and cs: "list_all (conv_shaped h k) (convs enc)" and ne: "convs enc \<noteq> []"
    and src: "shape src = [b, len]" and len: "1 \<le> len"
    and ids: "list_all (\<lambda>i. 0 \<le> i \<and> i < int v) (data src)"
  shows "\<exists>y g'. ConvEmbedding_forward enc g src = Inr (y, g')
               \<and> shape y = [b, len, e'] \<and> wf_tensor y"
proof -
  from ConvEmbedding_forward_prefix [OF emb e2h src ids, of g]
  obtain x g1 where f: "ConvEmbedding_forward enc g src =
           (case conv_loop enc (convs enc) (x, None, g1) of Inl e \<Rightarrow> Inl e
            | Inr (conv_input, conved_var, g2) \<Rightarrow>
            case conved_var of
              None \<Rightarrow> Inl (UnboundLocalError ''local variable conved referenced before assignment'')
            | Some conved \<Rightarrow>
            case permute conved [0, 2, 1] of Inl e \<Rightarrow> Inl e | Inr permuted \<Rightarrow>
            case Linear_forward (hid2emb enc) permuted of Inl e \<Rightarrow> Inl e | Inr conved \<Rightarrow>
            Inr (conved, g2))"
    and sx: "shape x = [b, h, len]" by blast
  from conv_loop_shape [OF cs sc cpu h sx len ne, of None g1]
  obtain y4 g2 where y4: "conv_loop enc (convs enc) (x, None, g1) = Inr (y4, Some y4, g2)"
    and s4: "shape y4 = [b, h, len]" by blast
  from permute_021_shape [OF s4]
  obtain y5 where y5: "permute y4 [0, 2, 1] = Inr y5" and s5: "shape y5 = [b, len] @ [h]" by auto
  from Linear_forward_shape [OF h2e s5]
  obtain y6 where y6: "Linear_forward (hid2emb enc) y5 = Inr y6"
    and s6: "shape y6 = [b, len, e']" and w6: "wf_tensor y6" by auto
  show ?thesis
    by (simp add: f y4 y5 y6 s6 w6 del: One_nat_def)
qed

lemma ConvEmbedding_forward_no_layers:
  assumes "convs enc = []"
  shows "isl (ConvEmbedding_forward enc g src)"
  using assms
  by (simp add: ConvEmbedding_forward_def split: sum.splits prod.splits)

lemma ConvEmbedding_forward_unbound:
  assumes emb: "shape (emb_weight (tok_embedding enc)) = [v, e]"
    and e2h: "shape (lin_weight (emb2hid enc)) = [h, e]"
    and ne: "convs enc = []"
    and src: "shape src = [b, len]"
    and ids: "list_all (\<lambda>i. 0 \<le> i \<and> i < int v) (data src)"
  shows "ConvEmbedding_forward enc g src
         = Inl (UnboundLocalError ''local variable conved referenced before assignment'')"
  using ConvEmbedding_forward_prefix [OF emb e2h src ids, of g] ne
  by auto

lemma ConvEmbedding_forward_zero_width:
  assumes emb: "shape (emb_weight (tok_embedding enc)) = [v, e]"
    and e2h: "shape (lin_weight (emb2hid enc)) = [0, e]"
    and cs: "list_all (conv_shaped 0 k) (convs enc)" and ne: "convs enc \<noteq> []"
    and src: "shape src = [b, len]"
    and ids: "list_all (\<lambda>i. 0 \<le> i \<and> i < int v) (data src)"
  shows "ConvEmbedding_forward enc g src
         = Inl (RuntimeError ''Given groups=1, expected weight to be at least 1 at dimension 0'')"
proof -
  from ConvEmbedding_forward_prefix [OF emb e2h src ids, of g]
  obtain x g1 where f: "ConvEmbedding_forward enc g src =
           (case conv_loop enc (convs enc) (x, None, g1) of Inl e \<Rightarrow> Inl e
            | Inr (conv_input, conved_var, g2) \<Rightarrow>
            case conved_var of
              None \<Rightarrow> Inl (UnboundLocalError ''local variable conved referenced before assignment'')
            | Some conved \<Rightarrow>
            case permute conved [0, 2, 1] of Inl e \<Rightarrow> Inl e | Inr permuted \<Rightarrow>
            case Linear_forward (hid2emb enc) permuted of Inl e \<Rightarrow> Inl e | Inr conved \<Rightarrow>
            Inr (conved, g2))"
    and sx: "shape x = [b, 0, len]" by blast
  from ne obtain c rest where cr: "convs enc = c # rest" by (cases "convs enc") auto
  with cs have c: "shape (conv_weight c) = [0, 0, k]"
    by (simp add: conv_shaped_def)
  obtain dropped g' where d: "Dropout_forward (dropout enc) g1 x = (dropped, g')"
    by (cases "Dropout_forward (dropout enc) g1 x")
  have ds: "shape dropped = [b, 0, len]"
    using shape_Dropout_forward [of "dropout enc" g1 x] d sx by simp
  from c ds have "Conv1d_forward c dropped
      = Inl (RuntimeError ''Given groups=1, expected weight to be at least 1 at dimension 0'')"
    by (simp add: Conv1d_forward_def Let_def)
  then have "conv_block enc c (x, None, g1)
      = Inl (RuntimeError ''Given groups=1, expected weight to be at least 1 at dimension 0'')"
    by (simp add: conv_block_def d)
  with f cr show ?thesis by simp
qed

lemma conv_block_other_device:
  assumes c: "conv_shaped h k c"
    and dev: "snd (scale self) \<noteq> CPU"
    and h: "1 \<le> h"
    and x: "shape conv_input = [b, h, len]" and len: "1 \<le> len"
  shows "conv_block self c (conv_input, cv, g)
         = Inl (RuntimeError ''Expected all tensors to be on the same device'')"
proof -
  from c have w: "shape (conv_weight c) = [2 * h, h, k]" and p: "2 * padding c + 1 = int k"
    by (simp_all add: conv_shaped_def)
  from p have p0: "0 \<le> padding c" and pk: "2 * nat (padding c) + 1 = k" by linarith+
  obtain dropped g' where d: "Dropout_forward (dropout self) g conv_input = (dropped, g')"
    by (cases "Dropout_forward (dropout self) g conv_input")
  have ds: "shape dropped = [b, h, len]"
    using shape_Dropout_forward [of "dropout self" g conv_input] d x by simp
  from pk len have fit: "k \<le> len + 2 * nat (padding c)" by linarith
  from h have oc: "1 \<le> 2 * h" by simp
  from Conv1d_forward_shape [OF w p0 ds fit oc]
  obtain y1 where y1: "Conv1d_forward c dropped = Inr y1"
    and s1: "shape y1 = [b, 2 * h, len + 2 * nat (padding c) + 1 - k]" by blast
  from pk have "len + 2 * nat (padding c) + 1 - k = len" by linarith
  with s1 have s1': "shape y1 = [b, 2 * h, len]" by simp
  from F_glu_shape [OF s1'] obtain y2 where y2: "F_glu y1 1 = Inr y2"
    and s2: "shape y2 = [b, h, len]" by blast
  from tensor_add_shape [OF s2 x] obtain y3 where y3: "tensor_add y2 conv_input = Inr y3"
    by blast
  show ?thesis
    by (simp add: conv_block_def d y1 y2 y3 tensor_mul_placed_def dev del: One_nat_def)
qed

lemma ConvEmbedding_forward_other_device:
  assumes emb: "shape (emb_weight (tok_embedding enc)) = [v, e]"
    and e2h: "shape (lin_weight (emb2hid enc)) = [h, e]"
    and dev: "snd (scale enc) \<noteq> CPU" and h: "1 \<le> h"
    and cs: "list_all (conv_shaped h k) (convs enc)" and ne: "convs enc \<noteq> []"
    and src: "shape src = [b, len]" and len: "1 \<le> len"
    and ids: "list_all (\<lambda>i. 0 \<le> i \<and> i < int v) (data src)"
  shows "ConvEmbedding_forward enc g src
         = Inl (RuntimeError ''Expected all tensors to be on the same device'')"
proof -
  from ConvEmbedding_forward_prefix [OF emb e2h src ids, of g]
  obtain x g1 where f: "ConvEmbedding_forward enc g src =
           (case conv_loop enc (convs enc) (x, None, g1) of Inl e \<Rightarrow> Inl e
            | Inr (conv_input, conved_var, g2) \<Rightarrow>
            case conved_var of
              None \<Rightarrow> Inl (UnboundLocalError ''local variable conved referenced before assignment'')
            | Some conved \<Rightarrow>
            case permute conved [0, 2, 1] of Inl e \<Rightarrow> Inl e | Inr permuted \<Rightarrow>
            case Linear_forward (hid2emb enc) permuted of Inl e \<Rightarrow> Inl e | Inr conved \<Rightarrow>
            Inr (conved, g2))"
    and sx: "shape x = [b, h, len]" by blast
  from ne obtain c rest where cr: "convs enc = c # rest" by (cases "convs enc") auto
  with cs have c: "conv_shaped h k c" by simp
  from conv_block_other_device [OF c dev h sx len, of None g1] f cr
  show ?thesis by simp
qed

lemma collect_map_succeeds:
  assumes "\<And>x. \<exists>y. f x = Inr y"
  shows "\<exists>ys. collect (map f xs) = Inr ys"
proof (induction xs)
  case Nil
  show ?case by simp
next
  case (Cons x xs)
  from assms obtain y where "f x = Inr y" by blast
  with Cons show ?case by auto
qed

lemma ConvEmbedding_init_succeeds:
  assumes "kernel_size' mod 2 = 1" and "resolve device' = Some d"
    and "0 \<le> input_dim'" and "0 \<le> emb_dim'" and "0 \<le> hid_dim'"
    and "n_layers \<le> 0 \<or> 0 \<le> kernel_size'"
    and "0 \<le> dropout'" and "dropout' \<le> 1"
  shows "\<exists>enc. ConvEmbedding_init resolve init input_dim' device' emb_dim' hid_dim' n_layers
                 kernel_size' dropout' = Inr enc"
proof -
  have "\<exists>cs. collect (map (\<lambda>i. nn_Conv1d (init (convs_weight i)) (init (convs_bias i))
                                hid_dim' (2 * hid_dim') kernel_size' ((kernel_size' - 1) div 2))
                        [0..<nat n_layers]) = Inr cs"
  proof (cases "n_layers \<le> 0")
    case True
    then show ?thesis by simp
  next
    case False
    with assms have "0 \<le> kernel_size'" by simp
    with assms show ?thesis
      by (intro collect_map_succeeds) (simp add: nn_Conv1d_def)
  qed
  then obtain cs where "collect (map (\<lambda>i. nn_Conv1d (init (convs_weight i)) (init (convs_bias i))
                                hid_dim' (2 * hid_dim') kernel_size' ((kernel_size' - 1) div 2))
                        [0..<nat n_layers]) = Inr cs" by blast
  with assms show ?thesis
    by (simp add: ConvEmbedding_init_def Let_def tensor_to_def nn_Embedding_def nn_Linear_def
          nn_Dropout_def Encoder_init_def)
qed

lemma ConvEmbedding_forward_empty_sequence:
  assumes emb: "shape (emb_weight (tok_embedding enc)) = [v, e]"
    and e2h: "shape (lin_weight (emb2hid enc)) = [h, e]"
    and cs: "list_all (conv_shaped h k) (convs enc)" and ne: "convs enc \<noteq> []"
    and h: "1 \<le> h"
    and src: "shape src = [b, 0]"
    and ids: "list_all (\<lambda>i. 0 \<le> i \<and> i < int v) (data src)"
  shows "ConvEmbedding_forward enc g src
         = Inl (RuntimeError ''Kernel size can not be greater than actual input size'')"
proof -
  from ConvEmbedding_forward_prefix [OF emb e2h src ids, of g]
  obtain x g1 where f: "ConvEmbedding_forward enc g src =
           (case conv_loop enc (convs enc) (x, None, g1) of Inl e \<Rightarrow> Inl e
            | Inr (conv_input, conved_var, g2) \<Rightarrow>
            case conved_var of
              None \<Rightarrow> Inl (UnboundLocalError ''local variable conved referenced before assignment'')
            | Some conved \<Rightarrow>
            case permute conved [0, 2, 1] of Inl e \<Rightarrow> Inl e | Inr permuted \<Rightarrow>
            case Linear_forward (hid2emb enc) permuted of Inl e \<Rightarrow> Inl e | Inr conved \<Rightarrow>
            Inr (conved, g2))"
    and sx: "shape x = [b, h, 0]" by blast
  from ne obtain c rest where cr: "convs enc = c # rest" by (cases "convs enc") auto
  with cs have c: "shape (conv_weight c) = [2 * h, h, k]" and p: "2 * padding c + 1 = int k"
    by (simp_all add: conv_shaped_def)
  obtain dropped g' where d: "Dropout_forward (dropout enc) g1 x = (dropped, g')"
    by (cases "Dropout_forward (dropout enc) g1 x")
  have ds: "shape dropped = [b, h, 0]"
    using shape_Dropout_forward [of "dropout enc" g1 x] d sx by simp
  from p have "0 \<le> padding c" and "2 * nat (padding c) < k" by linarith+
  with c ds h have "Conv1d_forward c dropped
      = Inl (RuntimeError ''Kernel size can not be greater than actual input size'')"
    by (simp add: Conv1d_forward_def Let_def)
  then have "conv_block enc c (x, None, g1)
      = Inl (RuntimeError ''Kernel size can not be greater than actual input size'')"
    by (simp add: conv_block_def d)
  with f cr show ?thesis by simp
qed

lemma LinearDecoder_init_Inr:
  assumes "LinearDecoder_init init enc_dim out_dim' highway_layers highway_act = Inr dec"
  shows "out_dim dec = out_dim'" and "highway dec = None" and "device_attr dec = None"
    and "shape (lin_weight (LinearDecoder.decoder dec)) = [nat out_dim', nat enc_dim]"
    and "0 \<le> out_dim'" and "0 \<le> enc_dim"
  using assms
  by (auto simp: LinearDecoder_init_def nn_Linear_def shape_fresh split: sum.splits if_splits)

lemma LinearDecoder_init_succeeds:
  assumes "0 \<le> enc_dim" and "0 \<le> out_dim'"
  shows "\<exists>dec. LinearDecoder_init init enc_dim out_dim' highway_layers highway_act = Inr dec"
  using assms by (simp add: LinearDecoder_init_def nn_Linear_def)

lemma LinearDecoder_forward_plain:
  "highway dec = None \<Longrightarrow> LinearDecoder_forward dec x = Linear_forward (LinearDecoder.decoder dec) x"
  by (simp add: LinearDecoder_forward_def split: sum.splits)

section \<open>Construction and calls of the model\<close>

lemma GoodWillHunting_init_no_device:
  assumes "device_attr dec = None"
  shows "GoodWillHunting_init enc dec dev =
           (if encoder_device enc \<noteq> dev then Inl (AssertionError ''All devices should be the same !'')
            else Inl (AttributeError ''LinearDecoder object has no attribute device''))"
  using assms by (simp add: GoodWillHunting_init_def Let_def)

lemma GoodWillHunting_init_with_device:
  assumes "device_attr dec = Some d" and "0 \<le> out_dim dec"
  shows "GoodWillHunting_init enc dec dev =
           (if encoder_device enc = dev \<and> d = dev
            then Inr (register_buffer ''nll_weight''
                        \<lparr>shape = [nat (out_dim dec)], data = replicate (nat (out_dim dec)) 1\<rparr> True
                        \<lparr>encoder = enc, decoder = dec, device = dev, buffers = Map.empty,
                         non_persistent_buffers_set = {}\<rparr>)
            else Inl (AssertionError ''All devices should be the same !''))"
  using assms by (simp add: GoodWillHunting_init_def Let_def torch_ones_def)

lemma GoodWillHunting_init_Inr:
  assumes "GoodWillHunting_init enc dec dev = Inr m"
  shows "encoder m = enc" and "GoodWillHunting.decoder m = dec" and "GoodWillHunting.device m = dev"
    and "encoder_device enc = dev" and "device_attr dec = Some dev" and "0 \<le> out_dim dec"
    and "buffers m ''nll_weight''
         = Some \<lparr>shape = [nat (out_dim dec)], data = replicate (nat (out_dim dec)) 1\<rparr>"
    and "''nll_weight'' \<notin> non_persistent_buffers_set m"
  using assms
  by (auto simp: GoodWillHunting_init_def Let_def torch_ones_def register_buffer_def
           split: if_splits option.splits sum.splits)

lemma invoke_all_same: "invoke_all m calls = m"
proof (induction calls)
  case Nil
  show ?case by simp
next
  case (Cons c cs)
  then show ?case by (cases c) simp_all
qed

lemma GoodWillHunting_call_keyword:
  "name \<noteq> ''src'' \<Longrightarrow>
   GoodWillHunting_call self g src ((name, v) # kwargs)
   = Inl (TypeError (''forward() got an unexpected keyword argument '' @ name))"
  by (simp add: GoodWillHunting_call_def)

lemma example_encoder_constructed:
  "ConvEmbedding_init cpu_only zero_init 3 ''cpu'' 2 2 1 3 (1 / 2) = Inr example_encoder"
proof -
  obtain enc where e: "ConvEmbedding_init cpu_only zero_init 3 ''cpu'' 2 2 1 3 (1 / 2) = Inr enc"
    using ConvEmbedding_init_succeeds
      [where resolve = cpu_only and device' = "''cpu''" and d = CPU and init = zero_init
         and kernel_size' = 3 and input_dim' = 3 and emb_dim' = 2 and hid_dim' = 2
         and n_layers = 1 and dropout' = "1 / 2"]
    by (auto simp: cpu_only_def)
  then show ?thesis by (simp add: example_encoder_def)
qed

lemma ConvEmbedding_init_device:
  "ConvEmbedding_init resolve init input_dim' device' emb_dim' hid_dim' n_layers kernel_size' dropout'
     = Inr enc \<Longrightarrow> Encoder.device enc = device'"
  by (auto simp: ConvEmbedding_init_def Let_def Encoder_init_def Encoder.extend_def
           ConvEmbedding.fields_def split: if_splits sum.splits)

lemma example_decoder_constructed:
  "\<exists>dec. LinearDecoder_init zero_init 2 4 (0::int) ''relu'' = Inr dec
     \<and> example_decoder = dec\<lparr>device_attr := Some ''cpu''\<rparr>"
  using LinearDecoder_init_succeeds [of 2 4 zero_init "0::int" "''relu''"]
  by (auto simp: example_decoder_def)

lemma example_model_constructed:
  "GoodWillHunting_init (ConvEncoder example_encoder) example_decoder ''cpu'' = Inr example_model"
proof -
  from example_decoder_constructed obtain dec
    where d: "LinearDecoder_init zero_init 2 4 (0::int) ''relu'' = Inr dec"
      and x: "example_decoder = dec\<lparr>device_attr := Some ''cpu''\<rparr>" by blast
  have "device_attr example_decoder = Some ''cpu''" "0 \<le> out_dim example_decoder"
    using LinearDecoder_init_Inr(1) [OF d] by (simp_all add: x)
  from GoodWillHunting_init_with_device [OF this]
    ConvEmbedding_init_device [OF example_encoder_constructed]
  show ?thesis by (simp add: example_model_def)
qed

lemma ConvEmbedding_forward_constructed:
  assumes init: "ConvEmbedding_init resolve init input_dim' device' emb_dim' hid_dim' n_layers
                   kernel_size' dropout' = Inr enc"
    and dev: "resolve device' = Some CPU"
    and layers: "1 \<le> n_layers" and hid: "1 \<le> hid_dim'"
    and src: "shape src = [batch, len]" and len: "1 \<le> len"
    and ids: "list_all (\<lambda>i. 0 \<le> i \<and> i < input_dim') (data src)"
  shows "\<exists>y g'. ConvEmbedding_forward enc g src = Inr (y, g')
               \<and> shape y = [batch, len, nat emb_dim'] \<and> wf_tensor y"
proof -
  note sh = ConvEmbedding_init_Inr [OF init]
  from sh(7) layers have ne: "convs enc \<noteq> []" by auto
  from sh(9) dev have cpu: "snd (scale enc) = CPU" by simp
  from hid have h: "1 \<le> nat hid_dim'" by simp
  from sh(8) ids have ids': "list_all (\<lambda>i. 0 \<le> i \<and> i < int (nat input_dim')) (data src)"
    by simp
  from ConvEmbedding_forward_shape [OF sh(3) sh(4) sh(5) sh(2) cpu h sh(6) ne src len ids']
  show ?thesis .
qed

lemma GoodWillHunting_forward_shape:
  assumes init: "ConvEmbedding_init resolve init input_dim' device' emb_dim' hid_dim' n_layers
                   kernel_size' dropout' = Inr enc"
    and dev: "resolve device' = Some CPU"
    and layers: "1 \<le> n_layers" and hid: "1 \<le> hid_dim'"
    and m: "encoder self = ConvEncoder enc" and hw: "highway (GoodWillHunting.decoder self) = None"
    and w: "shape (lin_weight (LinearDecoder.decoder (GoodWillHunting.decoder self)))
            = [classes, nat emb_dim']"
    and src: "shape src = [batch, len]" and len: "1 \<le> len"
    and ids: "list_all (\<lambda>i. 0 \<le> i \<and> i < input_dim') (data src)"
  shows "\<exists>y g'. GoodWillHunting_forward self g src = Inr (y, g')
               \<and> shape y = [batch, len, classes] \<and> wf_tensor y"
proof -
  from ConvEmbedding_forward_constructed [OF init dev layers hid src len ids, of g]
  obtain y0 g' where y0: "ConvEmbedding_forward enc g src = Inr (y0, g')"
    and s0: "shape y0 = [batch, len] @ [nat emb_dim']" by auto
  from Linear_forward_shape [OF w s0]
  obtain y where "Linear_forward (LinearDecoder.decoder (GoodWillHunting.decoder self)) y0 = Inr y"
    and "shape y = [batch, len, classes]" and "wf_tensor y" by auto
  then show ?thesis
    by (simp add: GoodWillHunting_forward_def m y0 LinearDecoder_forward_plain [OF hw])
qed


lemma torch_argmax_last:
  assumes "shape x = [batch, len, classes]" and "0 < classes"
  shows "\<exists>y. torch_argmax x 2 = Inr y \<and> shape y = [batch, len] \<and> wf_tensor y"
  using assms by (simp add: torch_argmax_def shape_tabulate wf_tabulate)

lemma view_flatten_scores:
  assumes "shape x = [batch, len, classes]" and "0 < classes"
  shows "view x [- 1, int classes] = Inr (x\<lparr>shape := [batch * len, classes]\<rparr>)"
  using assms by (simp add: view_def numel_def)

lemma view_flat_viewable:
  "view_flat x =
     (if flat_viewable x then Inr \<lparr>shape = [prod_list (shape x)], data = data x\<rparr>
      else Inl (RuntimeError ''view size is not compatible with input tensor size and stride''))"
  by (simp add: view_flat_def view_def numel_def)

section \<open>Dropout and the generator\<close>

lemma Dropout_forward_inactive:
  "\<not> training d \<or> p d = 0 \<Longrightarrow> Dropout_forward d g x = (x, g)"
  by (auto simp: Dropout_forward_def)

lemma conv_block_inactive:
  assumes "\<not> training (dropout c) \<or> p (dropout c) = 0"
  shows "conv_block c conv (x, cv, g)
         = map_sum id (\<lambda>r. (fst r, fst (snd r), g)) (conv_block c conv (x, cv, g0))"
  using assms
  by (simp add: conv_block_def Dropout_forward_inactive split: sum.splits)

lemma conv_loop_inactive:
  assumes "\<not> training (dropout c) \<or> p (dropout c) = 0"
  shows "conv_loop c cs (x, cv, g)
         = map_sum id (\<lambda>r. (fst r, fst (snd r), g)) (conv_loop c cs (x, cv, g0))"
proof (induction cs arbitrary: x cv)
  case Nil
  show ?case by simp
next
  case (Cons conv rest)
  show ?case
  proof (cases "conv_block c conv (x, cv, g0)")
    case (Inl e)
    with conv_block_inactive [OF assms, of conv x cv g g0] show ?thesis by simp
  next
    case (Inr r)
    obtain x' cv' g' where r: "r = (x', cv', g')" by (cases r)
    with Inr conv_block_inactive [OF assms, of conv x cv g g0]
    have "conv_block c conv (x, cv, g) = Inr (x', cv', g)" by simp
    moreover from conv_block_inactive [OF assms, of conv x cv g0 g0] Inr r
    have "g' = g0" by simp
    ultimately show ?thesis using Inr r Cons.IH [of x' cv'] by simp
  qed
qed

lemma ConvEmbedding_forward_inactive:
  assumes "\<not> training (dropout c) \<or> p (dropout c) = 0"
  shows "ConvEmbedding_forward c g src
         = map_sum id (\<lambda>r. (fst r, g)) (ConvEmbedding_forward c g0 src)"
proof (cases "Embedding_forward (tok_embedding c) src")
  case (Inl e)
  then show ?thesis by (simp add: ConvEmbedding_forward_def)
next
  case e: (Inr y0)
  show ?thesis
  proof (cases "Linear_forward (emb2hid c) y0")
    case (Inl e)
    with e show ?thesis
      by (simp add: ConvEmbedding_forward_def Dropout_forward_inactive [OF assms])
  next
    case l: (Inr y1)
    show ?thesis
    proof (cases "permute y1 [0, 2, 1]")
      case (Inl e)
      with e l show ?thesis
        by (simp add: ConvEmbedding_forward_def Dropout_forward_inactive [OF assms])
    next
      case pm: (Inr y2)
      note lp = conv_loop_inactive [OF assms, of "convs c" y2 None g g0]
      note lp0 = conv_loop_inactive [OF assms, of "convs c" y2 None g0 g0]
      show ?thesis
      proof (cases "conv_loop c (convs c) (y2, None, g0)")
        case (Inl e)
        with lp e l pm show ?thesis
          by (simp add: ConvEmbedding_forward_def Dropout_forward_inactive [OF assms]
                del: One_nat_def)
      next
        case (Inr r)
        obtain x' cv' g' where r: "r = (x', cv', g')" by (cases r)
        from lp0 Inr r have g': "g' = g0" by simp
        from lp Inr r have "conv_loop c (convs c) (y2, None, g) = Inr (x', cv', g)" by simp
        with Inr r g' e l pm show ?thesis
          by (simp add: ConvEmbedding_forward_def Dropout_forward_inactive [OF assms]
                split: sum.splits option.splits del: One_nat_def)
      qed
    qed
  qed
qed

lemma dropout_inactive_eval: "dropout_inactive (encoder (GoodWillHunting_eval self))"
  by (cases "encoder self") (simp_all add: GoodWillHunting_eval_def)

section \<open>The example models, evaluated\<close>

lemma tiny_encoder_explicit:
  "ConvEmbedding_init cpu_only unit_init 1 ''cpu'' 1 1 1 1 (1 / 2)
   = Inr \<lparr>input_dim = 1, device = ''cpu'', emb_dim = 1, hid_dim = 1, kernel_size = 1,
          scale = (\<lparr>shape = [1], data = [sqrt (1 / 2)]\<rparr>, CPU),
          tok_embedding = \<lparr>emb_weight = \<lparr>shape = [1, 1], data = [1]\<rparr>\<rparr>,
          emb2hid = \<lparr>lin_weight = \<lparr>shape = [1, 1], data = [1]\<rparr>, lin_bias = \<lparr>shape = [1], data = [0]\<rparr>\<rparr>,
          hid2emb = \<lparr>lin_weight = \<lparr>shape = [1, 1], data = [1]\<rparr>, lin_bias = \<lparr>shape = [1], data = [0]\<rparr>\<rparr>,
          convs = [\<lparr>conv_weight = \<lparr>shape = [2, 1, 1], data = [0, 0]\<rparr>,
                    conv_bias = \<lparr>shape = [2], data = [0, 0]\<rparr>, padding = 0\<rparr>],
          dropout = \<lparr>p = 1 / 2, training = True\<rparr>\<rparr>"
  by (simp add: ConvEmbedding_init_def Let_def cpu_only_def unit_init_def tensor_to_def
        nn_Embedding_def nn_Linear_def nn_Conv1d_def nn_Dropout_def fresh_def Encoder_init_def
        Encoder.extend_def ConvEmbedding.fields_def numeral_2_eq_2)

lemmas tensor_eval =
  tabulate_def elt_def ravel_def numel_def Let_def draw_def
  Dropout_forward_def Embedding_forward_def Linear_forward_def Conv1d_forward_def
  permute_def F_glu_def sigmoid_def tensor_add_def tensor_mul_def tensor_mul_placed_def
  tensor_binop_def
  broadcast_shapes_def bcast_elt_def conv_block_def ConvEmbedding_forward_def

lemma tiny_keep:
  "map_sum id fst (ConvEmbedding_forward tiny_encoder keep_all \<lparr>shape = [1, 1], data = [0]\<rparr>)
   = Inr \<lparr>shape = [1, 1, 1], data = [2 * sqrt (1 / 2)]\<rparr>"
  apply (simp add: tiny_encoder_def tiny_encoder_explicit)
  apply (simp add: tensor_eval keep_all_def numeral_2_eq_2 numeral_3_eq_3)
  done

lemma tiny_drop:
  "map_sum id fst (ConvEmbedding_forward tiny_encoder drop_all \<lparr>shape = [1, 1], data = [0]\<rparr>)
   = Inr \<lparr>shape = [1, 1, 1], data = [0]\<rparr>"
  apply (simp add: tiny_encoder_def tiny_encoder_explicit)
  apply (simp add: tensor_eval drop_all_def numeral_2_eq_2 numeral_3_eq_3)
  done

lemma tiny_decoder_explicit:
  "tiny_decoder = \<lparr>out_dim = 1, highway = None,
      decoder = \<lparr>lin_weight = \<lparr>shape = [1, 1], data = [1]\<rparr>, lin_bias = \<lparr>shape = [1], data = [0]\<rparr>\<rparr>,
      relu = True, device_attr = Some ''cpu''\<rparr>"
  by (simp add: tiny_decoder_def LinearDecoder_init_def nn_Linear_def fresh_def unit_init_def)

lemma tiny_model_constructed:
  "GoodWillHunting_init (ConvEncoder tiny_encoder) tiny_decoder ''cpu'' = Inr tiny_model"
proof -
  have "device_attr tiny_decoder = Some ''cpu''" "0 \<le> out_dim tiny_decoder"
    by (simp_all add: tiny_decoder_explicit)
  from GoodWillHunting_init_with_device [OF this]
  show ?thesis
    by (simp add: tiny_model_def tiny_encoder_def tiny_encoder_explicit)
qed

lemma tiny_model_scores:
  "map_sum id fst (GoodWillHunting_forward tiny_model g src)
   = (case map_sum id fst (ConvEmbedding_forward tiny_encoder g src) of Inl e \<Rightarrow> Inl e
      | Inr y \<Rightarrow> Linear_forward (LinearDecoder.decoder tiny_decoder) y)"
  using GoodWillHunting_init_Inr(1,2) [OF tiny_model_constructed]
  by (simp add: GoodWillHunting_forward_def LinearDecoder_forward_plain tiny_decoder_explicit
        split: sum.splits)

section \<open>A training step\<close>

lemma train_epoch_steps:
  assumes fwd: "GoodWillHunting_forward self g src = Inr (output, g')"
    and sh: "shape output = [batch, len, classes]" and cls: "0 < classes"
    and od: "out_dim (GoodWillHunting.decoder self) = int classes"
  shows "\<exists>predicted. torch_argmax output 2 = Inr predicted \<and> shape predicted = [batch, len]
           \<and> train_epoch self g src trg (Some scorer) (Some criterion)
             = (case register_batch scorer (scorer_state scorer) predicted trg src of
                  Inl e \<Rightarrow> Inl e
                | Inr st \<Rightarrow>
                    if flat_viewable trg
                    then (case criterion (output\<lparr>shape := [batch * len, classes]\<rparr>)
                                         \<lparr>shape = [prod_list (shape trg)], data = data trg\<rparr> of
                            Inl e \<Rightarrow> Inl e
                          | Inr loss \<Rightarrow> Inr (loss, scorer\<lparr>scorer_state := st\<rparr>, g'))
                    else Inl (RuntimeError
                           ''view size is not compatible with input tensor size and stride''))"
proof -
  from torch_argmax_last [OF sh cls]
  obtain predicted where p: "torch_argmax output 2 = Inr predicted"
    and sp: "shape predicted = [batch, len]" by blast
  have "train_epoch self g src trg (Some scorer) (Some criterion)
             = (case register_batch scorer (scorer_state scorer) predicted trg src of
                  Inl e \<Rightarrow> Inl e
                | Inr st \<Rightarrow>
                    if flat_viewable trg
                    then (case criterion (output\<lparr>shape := [batch * len, classes]\<rparr>)
                                         \<lparr>shape = [prod_list (shape trg)], data = data trg\<rparr> of
                            Inl e \<Rightarrow> Inl e
                          | Inr loss \<Rightarrow> Inr (loss, scorer\<lparr>scorer_state := st\<rparr>, g'))
                    else Inl (RuntimeError
                           ''view size is not compatible with input tensor size and stride''))"
    by (simp add: train_epoch_def GoodWillHunting_call_def fwd p od
          view_flatten_scores [OF sh cls] view_flat_viewable split: sum.splits)
  with p sp show ?thesis by blast
qed


lemma example_decoder_fields:
  "out_dim example_decoder = 4" "highway example_decoder = None"
  "shape (lin_weight (LinearDecoder.decoder example_decoder)) = [4, 2]"
proof -
  from example_decoder_constructed obtain dec
    where d: "LinearDecoder_init zero_init 2 4 (0::int) ''relu'' = Inr dec"
      and x: "example_decoder = dec\<lparr>device_attr := Some ''cpu''\<rparr>" by blast
  note f = LinearDecoder_init_Inr [OF d]
  show "out_dim example_decoder = 4" by (simp add: x f(1))
  show "highway example_decoder = None" by (simp add: x f(2))
  show "shape (lin_weight (LinearDecoder.decoder example_decoder)) = [4, 2]"
    using f(4) by (simp add: x)
qed

lemma example_model_forward:
  assumes "shape src = [batch, len]" and "1 \<le> len"
    and "list_all (\<lambda>i. 0 \<le> i \<and> i < 3) (data src)"
  shows "\<exists>y g'. GoodWillHunting_forward example_model g src = Inr (y, g')
               \<and> shape y = [batch, len, 4] \<and> wf_tensor y"
proof -
  note m = GoodWillHunting_init_Inr(1,2) [OF example_model_constructed]
  have w: "shape (lin_weight (LinearDecoder.decoder (GoodWillHunting.decoder example_model)))
           = [4, nat 2]"
    by (simp add: m example_decoder_fields)
  have hw: "highway (GoodWillHunting.decoder example_model) = None"
    by (simp add: m example_decoder_fields)
  have c: "cpu_only ''cpu'' = Some CPU" by (simp add: cpu_only_def)
  from GoodWillHunting_forward_shape [OF example_encoder_constructed c _ _ m(1) hw w assms(1,2)]
    assms(3)
  show ?thesis by simp
qed

lemma train_epoch_propagates:
  "GoodWillHunting_forward self g src = Inl e \<Longrightarrow>
   train_epoch self g src trg scorer criterion = Inl e"
  by (simp add: train_epoch_def GoodWillHunting_call_def)

lemma train_epoch_nll_mismatch:
  assumes fwd: "GoodWillHunting_forward self g src = Inr (output, g')"
    and sh: "shape output = [batch, len, classes]" and cls: "0 < classes"
    and od: "out_dim (GoodWillHunting.decoder self) = int classes"
    and acc: "\<And>predicted. register_batch scorer (scorer_state scorer) predicted trg src = Inr st"
    and fl: "flat_viewable trg" and ne: "prod_list (shape trg) \<noteq> batch * len"
  shows "train_epoch self g src trg (Some scorer) (Some nll_loss)
         = Inl (ValueError ''Expected input batch_size to match target batch_size'')"
proof -
  from train_epoch_steps [OF fwd sh cls od, of trg scorer nll_loss] acc fl
  have "train_epoch self g src trg (Some scorer) (Some nll_loss)
        = (case nll_loss (output\<lparr>shape := [batch * len, classes]\<rparr>)
                         \<lparr>shape = [prod_list (shape trg)], data = data trg\<rparr> of
             Inl e \<Rightarrow> Inl e
           | Inr loss \<Rightarrow> Inr (loss, scorer\<lparr>scorer_state := st\<rparr>, g'))"
    by auto
  with ne show ?thesis by (simp add: nll_loss_def)
qed

lemma tiny_model_forward_keep:
  "\<exists>g'. GoodWillHunting_forward tiny_model keep_all \<lparr>shape = [1, 1], data = [0]\<rparr>
        = Inr (\<lparr>shape = [1, 1, 1], data = [2 * sqrt (1 / 2)]\<rparr>, g')"
proof -
  have "map_sum id fst (GoodWillHunting_forward tiny_model keep_all \<lparr>shape = [1, 1], data = [0]\<rparr>)
     = Inr \<lparr>shape = [1, 1, 1], data = [2 * sqrt (1 / 2)]\<rparr>"
    unfolding tiny_model_scores tiny_keep
    by (simp add: tiny_decoder_explicit Linear_forward_def tabulate_def elt_def ravel_def Let_def)
  then show ?thesis
    by (cases "GoodWillHunting_forward tiny_model keep_all \<lparr>shape = [1, 1], data = [0]\<rparr>") auto
qed

lemma tiny_model_out_dim: "out_dim (GoodWillHunting.decoder tiny_model) = int 1"
  by (simp add: GoodWillHunting_init_Inr(2) [OF tiny_model_constructed] tiny_decoder_explicit)

lemma nll_loss_tiny:
  "nll_loss (\<lparr>shape = [1, 1, 1], data = [2 * sqrt (1 / 2)]\<rparr>\<lparr>shape := [1 * 1, 1]\<rparr>)
            \<lparr>shape = [prod_list [1, 1]], data = [0]\<rparr>
   = Inr (Some (- (2 * sqrt (1 / 2))))"
  by (simp add: nll_loss_def elt_def ravel_def Let_def)

section \<open>Properties\<close>

text \<open>
  C3. For every even kernel size, and whatever the other arguments are, constructing a
  ConvEmbedding raises the assertion error of the kernel-size check: the constructor
  returns no encoder.
\<close>

theorem ConvEmbedding_even_kernel_fails:
  "kernel_size' mod 2 = 0 \<Longrightarrow>
   ConvEmbedding_init resolve init input_dim' device' emb_dim' hid_dim' n_layers kernel_size' dropout'
     = Inl (AssertionError ''Kernel size must be odd!'')"
  by (simp add: ConvEmbedding_init_def)

theorem ConvEmbedding_even_kernel_fails_witness:
  "(4::int) mod 2 = 0 \<and>
   ConvEmbedding_init cpu_only zero_init 15000 ''cpu'' 128 128 6 4 (1 / 2)
     = Inl (AssertionError ''Kernel size must be odd!'')"
  using ConvEmbedding_even_kernel_fails
    [where kernel_size' = 4 and resolve = cpu_only and init = zero_init
       and input_dim' = 15000 and device' = "''cpu''" and emb_dim' = 128 and hid_dim' = 128
       and n_layers = 6 and dropout' = "1 / 2"]
  by simp

text \<open>
  C4, as the code has it. For every ConvEmbedding that its constructor returned for the
  default device (\<open>cpu\<close>, where the layers are created), at least one layer and a hidden
  width of at least 1, and every tensor of token ids of shape \<open>[batch, len]\<close> with a
  non-empty sequence (\<open>len \<ge> 1\<close>) and ids within the vocabulary, \<open>forward\<close> returns a
  tensor of shape \<open>[batch, len, emb_dim]\<close>: one vector of the embedding width per token
  position per batch element. (The constructor returns only for an odd kernel size.)
\<close>

theorem ConvEmbedding_forward_keeps_length:
  assumes init: "ConvEmbedding_init resolve init input_dim' device' emb_dim' hid_dim' n_layers
                   kernel_size' dropout' = Inr enc"
    and dev: "resolve device' = Some CPU"
    and layers: "1 \<le> n_layers" and hid: "1 \<le> hid_dim'"
    and src: "shape src = [batch, len]" and len: "1 \<le> len"
    and ids: "list_all (\<lambda>i. 0 \<le> i \<and> i < input_dim') (data src)"
  shows "\<exists>y g'. ConvEmbedding_forward enc g src = Inr (y, g')
               \<and> shape y = [batch, len, nat emb_dim'] \<and> wf_tensor y"
proof -
  note sh = ConvEmbedding_init_Inr [OF init]
  from sh(7) layers have ne: "convs enc \<noteq> []" by auto
  from sh(9) dev have cpu: "snd (scale enc) = CPU" by simp
  from hid have h: "1 \<le> nat hid_dim'" by simp
  from sh(8) ids have ids': "list_all (\<lambda>i. 0 \<le> i \<and> i < int (nat input_dim')) (data src)"
    by simp
  from ConvEmbedding_forward_shape [OF sh(3) sh(4) sh(5) sh(2) cpu h sh(6) ne src len ids']
  show ?thesis .
qed

theorem ConvEmbedding_forward_keeps_length_witness:
  "\<exists>enc. ConvEmbedding_init cpu_only zero_init 3 ''cpu'' 2 2 1 3 (1 / 2) = Inr enc
     \<and> cpu_only ''cpu'' = Some CPU
     \<and> (1::int) \<le> 1 \<and> (1::int) \<le> 2
     \<and> shape \<lparr>shape = [1, 2], data = [0, 2::int]\<rparr> = [1, 2] \<and> (1::nat) \<le> 2
     \<and> list_all (\<lambda>i. 0 \<le> i \<and> i < 3) (data \<lparr>shape = [1, 2], data = [0, 2::int]\<rparr>)
     \<and> (\<exists>y g'. ConvEmbedding_forward enc keep_all \<lparr>shape = [1, 2], data = [0, 2]\<rparr> = Inr (y, g')
            \<and> shape y = [1, 2, nat 2] \<and> wf_tensor y)"
proof -
  have c: "cpu_only ''cpu'' = Some CPU" by (simp add: cpu_only_def)
  have "ConvEmbedding_init cpu_only zero_init 3 ''cpu'' 2 2 1 3 (1 / 2) = Inr example_encoder"
    by (rule example_encoder_constructed)
  then obtain enc
    where e: "ConvEmbedding_init cpu_only zero_init 3 ''cpu'' 2 2 1 3 (1 / 2) = Inr enc" ..
  have "\<exists>y g'. ConvEmbedding_forward enc keep_all \<lparr>shape = [1, 2], data = [0, 2]\<rparr> = Inr (y, g')
            \<and> shape y = [1, 2, nat 2] \<and> wf_tensor y"
    by (rule ConvEmbedding_forward_keeps_length [OF e c]) simp_all
  with e c show ?thesis by simp
qed

text \<open>
  C4 as stated, for every encoder with an odd kernel size and every tensor of token ids,
  fails. An encoder constructed with no layer raises on a well-formed input. An encoder
  with one layer raises on an empty sequence and on an id outside the vocabulary. An
  encoder constructed for the device \<open>cuda\<close> raises on every such input, since its
  layers are on the CPU and its \<open>scale\<close> is not. An encoder of hidden width 0 raises in
  its convolution, whose weight has no output channel.
\<close>

theorem ConvEmbedding_forward_length_counterexample:
  "\<not> isl (ConvEmbedding_init cpu_only zero_init 3 ''cpu'' 2 2 0 3 (1 / 2))
   \<and> ConvEmbedding_forward (projr (ConvEmbedding_init cpu_only zero_init 3 ''cpu'' 2 2 0 3 (1 / 2)))
        keep_all \<lparr>shape = [1, 2], data = [0, 2]\<rparr>
      = Inl (UnboundLocalError ''local variable conved referenced before assignment'')
   \<and> \<not> isl (ConvEmbedding_init cpu_only zero_init 3 ''cpu'' 2 2 1 3 (1 / 2))
   \<and> ConvEmbedding_forward (projr (ConvEmbedding_init cpu_only zero_init 3 ''cpu'' 2 2 1 3 (1 / 2)))
        keep_all \<lparr>shape = [1, 0], data = []\<rparr>
      = Inl (RuntimeError ''Kernel size can not be greater than actual input size'')
   \<and> ConvEmbedding_forward (projr (ConvEmbedding_init cpu_only zero_init 3 ''cpu'' 2 2 1 3 (1 / 2)))
        keep_all \<lparr>shape = [1, 2], data = [0, 3]\<rparr>
      = Inl (IndexError ''index out of range in self'')
   \<and> \<not> isl (ConvEmbedding_init cpu_and_cuda zero_init 3 ''cuda'' 2 2 1 3 (1 / 2))
   \<and> ConvEmbedding_forward
        (projr (ConvEmbedding_init cpu_and_cuda zero_init 3 ''cuda'' 2 2 1 3 (1 / 2)))
        keep_all \<lparr>shape = [1, 2], data = [0, 2]\<rparr>
      = Inl (RuntimeError ''Expected all tensors to be on the same device'')
   \<and> \<not> isl (ConvEmbedding_init cpu_only zero_init 3 ''cpu'' 2 0 1 3 (1 / 2))
   \<and> ConvEmbedding_forward (projr (ConvEmbedding_init cpu_only zero_init 3 ''cpu'' 2 0 1 3 (1 / 2)))
        keep_all \<lparr>shape = [1, 2], data = [0, 2]\<rparr>
      = Inl (RuntimeError ''Given groups=1, expected weight to be at least 1 at dimension 0'')"
proof -
  obtain e0 where e0: "ConvEmbedding_init cpu_only zero_init 3 ''cpu'' 2 2 0 3 (1 / 2) = Inr e0"
    using ConvEmbedding_init_succeeds
      [where resolve = cpu_only and device' = "''cpu''" and d = CPU and init = zero_init
         and kernel_size' = 3 and input_dim' = 3 and emb_dim' = 2 and hid_dim' = 2
         and n_layers = 0 and dropout' = "1 / 2"]
    by (auto simp: cpu_only_def)
  obtain e1 where e1: "ConvEmbedding_init cpu_only zero_init 3 ''cpu'' 2 2 1 3 (1 / 2) = Inr e1"
    using example_encoder_constructed ..
  obtain e2 where e2: "ConvEmbedding_init cpu_and_cuda zero_init 3 ''cuda'' 2 2 1 3 (1 / 2) = Inr e2"
    using ConvEmbedding_init_succeeds
      [where resolve = cpu_and_cuda and device' = "''cuda''" and d = "Accelerator ''cuda:0''"
         and init = zero_init and kernel_size' = 3 and input_dim' = 3 and emb_dim' = 2
         and hid_dim' = 2 and n_layers = 1 and dropout' = "1 / 2"]
    by (auto simp: cpu_and_cuda_def)
  obtain e3 where e3: "ConvEmbedding_init cpu_only zero_init 3 ''cpu'' 2 0 1 3 (1 / 2) = Inr e3"
    using ConvEmbedding_init_succeeds
      [where resolve = cpu_only and device' = "''cpu''" and d = CPU and init = zero_init
         and kernel_size' = 3 and input_dim' = 3 and emb_dim' = 2 and hid_dim' = 0
         and n_layers = 1 and dropout' = "1 / 2"]
    by (auto simp: cpu_only_def)
  note s0 = ConvEmbedding_init_Inr [OF e0]
  note s1 = ConvEmbedding_init_Inr [OF e1]
  note s2 = ConvEmbedding_init_Inr [OF e2]
  note s3 = ConvEmbedding_init_Inr [OF e3]
  from s0(7) have c0: "convs e0 = []" by simp
  have a: "ConvEmbedding_forward e0 keep_all \<lparr>shape = [1, 2], data = [0, 2]\<rparr>
      = Inl (UnboundLocalError ''local variable conved referenced before assignment'')"
    by (rule ConvEmbedding_forward_unbound [OF s0(3) s0(4) c0]) simp_all
  from s1(7) have c1: "convs e1 \<noteq> []" by auto
  have b: "ConvEmbedding_forward e1 keep_all \<lparr>shape = [1, 0], data = []\<rparr>
      = Inl (RuntimeError ''Kernel size can not be greater than actual input size'')"
    by (rule ConvEmbedding_forward_empty_sequence [OF s1(3) s1(4) s1(6) c1]) simp_all
  have c: "ConvEmbedding_forward e1 keep_all \<lparr>shape = [1, 2], data = [0, 3]\<rparr>
      = Inl (IndexError ''index out of range in self'')"
    using s1(3) by (simp add: ConvEmbedding_forward_def Embedding_forward_def)
  from s2(7) have c2: "convs e2 \<noteq> []" by auto
  from s2(9) have d2: "snd (scale e2) \<noteq> CPU" by (auto simp: cpu_and_cuda_def)
  have d: "ConvEmbedding_forward e2 keep_all \<lparr>shape = [1, 2], data = [0, 2]\<rparr>
      = Inl (RuntimeError ''Expected all tensors to be on the same device'')"
  proof (rule ConvEmbedding_forward_other_device
      [OF s2(3) s2(4) d2 _ s2(6) c2, where b = 1 and len = 2])
    show "1 \<le> nat 2" by arith
    show "(1::nat) \<le> 2" by arith
  qed simp_all
  from s3(7) have c3: "convs e3 \<noteq> []" by auto
  from s3(4) have w3: "shape (lin_weight (emb2hid e3)) = [0, nat 2]" by simp
  from s3(6) have k3: "list_all (conv_shaped 0 (nat 3)) (convs e3)" by simp
  have e: "ConvEmbedding_forward e3 keep_all \<lparr>shape = [1, 2], data = [0, 2]\<rparr>
      = Inl (RuntimeError ''Given groups=1, expected weight to be at least 1 at dimension 0'')"
    by (rule ConvEmbedding_forward_zero_width [OF s3(3) w3 k3 c3]) simp_all
  from a b c d e show ?thesis by (simp add: e0 e1 e2 e3)
qed

text \<open>
  C10. The constructor of ConvEmbedding accepts \<open>n_layers = 0\<close> (with an odd kernel size,
  a device that is available, whichever it is, non-negative sizes and a dropout
  probability within [0, 1]) and returns an encoder. Every call of \<open>forward\<close> on that encoder raises; on a tensor of
  token ids of shape \<open>[batch, len]\<close> within the vocabulary the exception is the unbound
  local variable \<open>conved\<close>. So whenever \<open>forward\<close> returns on a constructed encoder,
  the encoder was constructed with \<open>n_layers \<ge> 1\<close>.
\<close>

theorem ConvEmbedding_no_layers_forward_fails:
  assumes "kernel_size' mod 2 = 1" and "resolve device' = Some d"
    and "0 \<le> input_dim'" and "0 \<le> emb_dim'" and "0 \<le> hid_dim'"
    and "0 \<le> dropout'" and "dropout' \<le> 1"
  shows "(\<exists>enc. ConvEmbedding_init resolve init input_dim' device' emb_dim' hid_dim' 0
                  kernel_size' dropout' = Inr enc
            \<and> (\<forall>g src. isl (ConvEmbedding_forward enc g src))
            \<and> (\<forall>g src batch len.
                  shape src = [batch, len] \<and> list_all (\<lambda>i. 0 \<le> i \<and> i < input_dim') (data src) \<longrightarrow>
                  ConvEmbedding_forward enc g src
                  = Inl (UnboundLocalError ''local variable conved referenced before assignment'')))
         \<and> (\<forall>n_layers enc g src r.
               ConvEmbedding_init resolve init input_dim' device' emb_dim' hid_dim' n_layers
                 kernel_size' dropout' = Inr enc
               \<and> ConvEmbedding_forward enc g src = Inr r \<longrightarrow> 1 \<le> n_layers)"
proof (intro conjI allI impI)
  obtain enc where e: "ConvEmbedding_init resolve init input_dim' device' emb_dim' hid_dim' 0
                         kernel_size' dropout' = Inr enc"
    using ConvEmbedding_init_succeeds
      [where resolve = resolve and device' = device' and d = d and n_layers = 0 and init = init
         and kernel_size' = kernel_size' and input_dim' = input_dim' and emb_dim' = emb_dim'
         and hid_dim' = hid_dim' and dropout' = dropout'] assms
    by auto
  note sh = ConvEmbedding_init_Inr [OF e]
  from sh(7) have c: "convs enc = []" by simp
  have "ConvEmbedding_forward enc g src
          = Inl (UnboundLocalError ''local variable conved referenced before assignment'')"
    if "shape src = [batch, len] \<and> list_all (\<lambda>i. 0 \<le> i \<and> i < input_dim') (data src)"
    for g src batch len
  proof -
    from that sh(8) have "list_all (\<lambda>i. 0 \<le> i \<and> i < int (nat input_dim')) (data src)" by simp
    with that show ?thesis
      by (intro ConvEmbedding_forward_unbound [OF sh(3) sh(4) c]) simp_all
  qed
  with e c show "\<exists>enc. ConvEmbedding_init resolve init input_dim' device' emb_dim' hid_dim' 0
                  kernel_size' dropout' = Inr enc
            \<and> (\<forall>g src. isl (ConvEmbedding_forward enc g src))
            \<and> (\<forall>g src batch len.
                  shape src = [batch, len] \<and> list_all (\<lambda>i. 0 \<le> i \<and> i < input_dim') (data src) \<longrightarrow>
                  ConvEmbedding_forward enc g src
                  = Inl (UnboundLocalError ''local variable conved referenced before assignment''))"
    by (blast intro: ConvEmbedding_forward_no_layers)
next
  fix n_layers enc g src r
  assume a: "ConvEmbedding_init resolve init input_dim' device' emb_dim' hid_dim' n_layers
                 kernel_size' dropout' = Inr enc
               \<and> ConvEmbedding_forward enc g src = Inr r"
  show "1 \<le> n_layers"
  proof (rule ccontr)
    assume "\<not> 1 \<le> n_layers"
    with ConvEmbedding_init_Inr(7) a have "convs enc = []" by fastforce
    from ConvEmbedding_forward_no_layers [OF this, of g src] a show False by simp
  qed
qed

theorem ConvEmbedding_no_layers_forward_fails_witness:
  "(3::int) mod 2 = 1 \<and> cpu_only ''cpu'' = Some CPU \<and> (0::int) \<le> 3 \<and> (0::int) \<le> 2
   \<and> (0::real) \<le> 1 / 2 \<and> (1::real) / 2 \<le> 1
   \<and> (\<exists>enc. ConvEmbedding_init cpu_only zero_init 3 ''cpu'' 2 2 0 3 (1 / 2) = Inr enc
         \<and> ConvEmbedding_forward enc keep_all \<lparr>shape = [1, 2], data = [0, 2]\<rparr>
           = Inl (UnboundLocalError ''local variable conved referenced before assignment''))"
proof -
  have h: "(3::int) mod 2 = 1" "cpu_only ''cpu'' = Some CPU" "(0::int) \<le> 3" "(0::int) \<le> 2" "(0::int) \<le> 2"
    "(0::real) \<le> 1 / 2" "(1::real) / 2 \<le> 1"
    by (simp_all add: cpu_only_def)
  from ConvEmbedding_no_layers_forward_fails
      [where resolve = cpu_only and device' = "''cpu''" and d = CPU and init = zero_init
         and kernel_size' = 3 and input_dim' = 3 and emb_dim' = 2
         and hid_dim' = 2 and dropout' = "1 / 2"] h
  obtain enc where e: "ConvEmbedding_init cpu_only zero_init 3 ''cpu'' 2 2 0 3 (1 / 2) = Inr enc"
    and f: "\<And>g src batch len.
                  shape src = [batch, len] \<and> list_all (\<lambda>i. 0 \<le> i \<and> i < 3) (data src) \<Longrightarrow>
                  ConvEmbedding_forward enc g src
                  = Inl (UnboundLocalError ''local variable conved referenced before assignment'')"
    by blast
  have "ConvEmbedding_forward enc keep_all \<lparr>shape = [1, 2], data = [0, 2]\<rparr>
           = Inl (UnboundLocalError ''local variable conved referenced before assignment'')"
    by (rule f [of _ 1 2]) simp
  with e h show ?thesis by blast
qed



text \<open>
  C7. For a constructed LinearDecoder and an input whose last dimension is the encoder
  width, whatever its leading (batch and sequence) dimensions are, \<open>forward\<close> returns a
  tensor with the same leading dimensions and last dimension \<open>out_dim\<close>. Every score is
  the affine combination of the inputs itself: no activation or softmax is applied.
\<close>

theorem LinearDecoder_forward_last_dim:
  assumes "LinearDecoder_init init enc_dim out_dim' highway_layers highway_act = Inr dec"
    and "shape x = lead @ [nat enc_dim]"
  shows "\<exists>y. LinearDecoder_forward dec x = Inr y
           \<and> shape y = lead @ [nat out_dim'] \<and> int (last (shape y)) = out_dim dec \<and> wf_tensor y
           \<and> y = tabulate (lead @ [nat out_dim'])
                   (\<lambda>ix. (\<Sum>i \<leftarrow> [0..<nat enc_dim].
                            elt x (butlast ix @ [i]) * elt (lin_weight (LinearDecoder.decoder dec)) [last ix, i])
                         + elt (lin_bias (LinearDecoder.decoder dec)) [last ix])"
proof -
  note d = LinearDecoder_init_Inr [OF assms(1)]
  from d(4) assms(2)
  have "Linear_forward (LinearDecoder.decoder dec) x
        = Inr (tabulate (lead @ [nat out_dim'])
                   (\<lambda>ix. (\<Sum>i \<leftarrow> [0..<nat enc_dim].
                            elt x (butlast ix @ [i]) * elt (lin_weight (LinearDecoder.decoder dec)) [last ix, i])
                         + elt (lin_bias (LinearDecoder.decoder dec)) [last ix]))"
    by (simp add: Linear_forward_def Let_def)
  with d(1,2,5) show ?thesis
    by (simp add: LinearDecoder_forward_plain shape_tabulate wf_tabulate)
qed

theorem LinearDecoder_forward_last_dim_witness:
  "\<exists>dec. LinearDecoder_init zero_init 2 3 (0::int) ''relu'' = Inr dec
     \<and> shape \<lparr>shape = [4, 5, 2], data = replicate 40 (0::real)\<rparr> = [4, 5] @ [nat 2]
     \<and> (\<exists>y. LinearDecoder_forward dec \<lparr>shape = [4, 5, 2], data = replicate 40 0\<rparr> = Inr y
           \<and> shape y = [4, 5] @ [nat 3] \<and> int (last (shape y)) = out_dim dec \<and> wf_tensor y)"
proof -
  obtain dec where d: "LinearDecoder_init zero_init 2 3 (0::int) ''relu'' = Inr dec"
    using LinearDecoder_init_succeeds [of 2 3 zero_init "0::int" "''relu''"] by auto
  have s: "shape \<lparr>shape = [4, 5, 2], data = replicate 40 (0::real)\<rparr> = [4, 5] @ [nat 2]"
    by simp
  from LinearDecoder_forward_last_dim [OF d s] d s show ?thesis by blast
qed

text \<open>
  C1 fails on the code. A ConvEmbedding on \<open>cpu\<close>, a LinearDecoder as its constructor
  returns it and the declared device \<open>cpu\<close> agree on the device as far as they have one,
  and the construction of the model raises an attribute error: the assertion reads a
  \<open>device\<close> of the decoder, which \<open>LinearDecoder.__init__\<close> never binds. By
  \<open>GoodWillHunting_init_no_device\<close>, no model is ever constructed from such a decoder;
  by \<open>GoodWillHunting_init_with_device\<close>, once a caller has bound the attribute, the
  construction succeeds exactly when the three devices are equal and raises the
  assertion error otherwise.
\<close>

theorem GoodWillHunting_init_decoder_without_device:
  "\<not> isl (ConvEmbedding_init cpu_only zero_init 3 ''cpu'' 2 2 1 3 (1 / 2))
   \<and> \<not> isl (LinearDecoder_init zero_init 2 4 (0::int) ''relu'')
   \<and> GoodWillHunting_init
        (ConvEncoder (projr (ConvEmbedding_init cpu_only zero_init 3 ''cpu'' 2 2 1 3 (1 / 2))))
        (projr (LinearDecoder_init zero_init 2 4 (0::int) ''relu'')) ''cpu''
      = Inl (AttributeError ''LinearDecoder object has no attribute device'')"
proof -
  obtain enc where e: "ConvEmbedding_init cpu_only zero_init 3 ''cpu'' 2 2 1 3 (1 / 2) = Inr enc"
    using ConvEmbedding_init_succeeds
      [where resolve = cpu_only and device' = "''cpu''" and d = CPU and init = zero_init
         and kernel_size' = 3 and input_dim' = 3 and emb_dim' = 2 and hid_dim' = 2
         and n_layers = 1 and dropout' = "1 / 2"]
    by (auto simp: cpu_only_def)
  obtain dec where d: "LinearDecoder_init zero_init 2 4 (0::int) ''relu'' = Inr dec"
    using LinearDecoder_init_succeeds [of 2 4 zero_init "0::int" "''relu''"] by auto
  from e have dev: "Encoder.device enc = ''cpu''"
    by (auto simp: ConvEmbedding_init_def Let_def Encoder_init_def Encoder.extend_def
             ConvEmbedding.fields_def split: if_splits sum.splits)
  from LinearDecoder_init_Inr(3) [OF d] dev show ?thesis
    by (simp add: e d GoodWillHunting_init_no_device)
qed

text \<open>
  C8. Every model that \<open>GoodWillHunting.__init__\<close> returned holds a buffer
  \<open>nll_weight\<close>, of one dimension whose length is the class count \<open>out_dim\<close> of the
  decoder, with every entry 1; the buffer is persistent, so it is part of the saved
  state; and it is the same after any sequence of calls of \<open>forward\<close>, \<open>predict\<close> and
  \<open>train_epoch\<close>.
\<close>

theorem GoodWillHunting_nll_weight:
  assumes "GoodWillHunting_init enc dec dev = Inr m"
  shows "\<exists>w. buffers (invoke_all m calls) ''nll_weight'' = Some w
           \<and> state_dict_buffers (invoke_all m calls) ''nll_weight'' = Some w
           \<and> shape w = [nat (out_dim dec)]
           \<and> int (length (data w)) = out_dim (GoodWillHunting.decoder (invoke_all m calls))
           \<and> list_all (\<lambda>v. v = 1) (data w)"
proof -
  note i = GoodWillHunting_init_Inr [OF assms]
  from i(2,6,7,8) show ?thesis
    by (simp add: invoke_all_same state_dict_buffers_def list_all_iff)
qed

theorem GoodWillHunting_nll_weight_witness:
  "\<exists>m. GoodWillHunting_init (PlainEncoder (Encoder_init 3 ''cpu''))
          ((projr (LinearDecoder_init zero_init 2 4 (0::int) ''relu''))\<lparr>device_attr := Some ''cpu''\<rparr>)
          ''cpu'' = Inr m
     \<and> (\<exists>w. buffers (invoke_all m [Forward keep_all \<lparr>shape = [1, 2], data = [0, 2]\<rparr>,
                                    TrainEpoch keep_all \<lparr>shape = [1, 2], data = [0, 2]\<rparr>
                                      \<lparr>shape = [1, 2], data = [1, 3], flat_viewable = True\<rparr>
                                      (Some accepting_scorer) (Some (constant_loss 0))])
               ''nll_weight'' = Some w
           \<and> shape w = [nat 4] \<and> list_all (\<lambda>v. v = 1) (data w))"
proof -
  obtain dec where d: "LinearDecoder_init zero_init 2 4 (0::int) ''relu'' = Inr dec"
    using LinearDecoder_init_succeeds [of 2 4 zero_init "0::int" "''relu''"] by auto
  note dd = LinearDecoder_init_Inr [OF d]
  have "\<exists>m. GoodWillHunting_init (PlainEncoder (Encoder_init 3 ''cpu''))
          (dec\<lparr>device_attr := Some ''cpu''\<rparr>) ''cpu'' = Inr m"
    using dd(1) by (simp add: GoodWillHunting_init_with_device [of _ "''cpu''"] Encoder_init_def)
  then obtain m where m: "GoodWillHunting_init (PlainEncoder (Encoder_init 3 ''cpu''))
          (dec\<lparr>device_attr := Some ''cpu''\<rparr>) ''cpu'' = Inr m" by blast
  from GoodWillHunting_nll_weight [OF m,
      of "[Forward keep_all \<lparr>shape = [1, 2], data = [0, 2]\<rparr>,
           TrainEpoch keep_all \<lparr>shape = [1, 2], data = [0, 2]\<rparr>
             \<lparr>shape = [1, 2], data = [1, 3], flat_viewable = True\<rparr>
             (Some accepting_scorer) (Some (constant_loss 0))]"] m dd(1)
  show ?thesis by (auto simp: d)
qed

text \<open>
  C2 fails on the code. On every model, input and class-name dictionary \<open>predict\<close>
  raises a type error and returns no label: it calls the module with the keyword
  argument \<open>out\<close>, which \<open>forward\<close> does not take.
\<close>

theorem predict_raises_TypeError:
  "predict self g src classnames
   = Inl (TypeError ''forward() got an unexpected keyword argument out'')"
  by (simp add: predict_def GoodWillHunting_call_def)

text \<open>
  C6, as the code has it. While dropout is inactive (the encoder is in evaluation mode, as
  after \<open>model.eval()\<close>, or its dropout probability is 0, or it is a base encoder),
  \<open>forward\<close> is a function of the parameters and the input alone: for any two states
  \<open>g\<close> and \<open>g0\<close> of the random number generator the call returns the same scores, or
  raises the same exception, and it leaves the generator as it found it.
\<close>

theorem GoodWillHunting_forward_deterministic:
  assumes "dropout_inactive (encoder self)"
  shows "GoodWillHunting_forward self g src
         = map_sum id (\<lambda>r. (fst r, g)) (GoodWillHunting_forward self g0 src)"
proof (cases "encoder self")
  case (PlainEncoder e)
  then show ?thesis by (simp add: GoodWillHunting_forward_def)
next
  case (ConvEncoder c)
  with assms have "\<not> training (dropout c) \<or> p (dropout c) = 0" by simp
  from ConvEmbedding_forward_inactive [OF this, of g src g0] ConvEncoder
  show ?thesis
    by (simp add: GoodWillHunting_forward_def split: sum.splits prod.splits)
qed

theorem GoodWillHunting_forward_deterministic_witness:
  "dropout_inactive (encoder (GoodWillHunting_eval tiny_model))
   \<and> GoodWillHunting_forward (GoodWillHunting_eval tiny_model) keep_all \<lparr>shape = [1, 1], data = [0]\<rparr>
     = map_sum id (\<lambda>r. (fst r, keep_all))
         (GoodWillHunting_forward (GoodWillHunting_eval tiny_model) drop_all \<lparr>shape = [1, 1], data = [0]\<rparr>)"
  using GoodWillHunting_forward_deterministic [OF dropout_inactive_eval]
    dropout_inactive_eval by blast

text \<open>
  C6 as stated fails: a constructed model is in training mode, where dropout draws its
  mask from the generator, whose state is carried from call to call. The same model with
  the same parameters, on the same input, returns different scores for two states of
  the generator.
\<close>

theorem GoodWillHunting_forward_training_counterexample:
  "map_sum id fst (GoodWillHunting_forward tiny_model keep_all \<lparr>shape = [1, 1], data = [0]\<rparr>)
     = Inr \<lparr>shape = [1, 1, 1], data = [2 * sqrt (1 / 2)]\<rparr>
   \<and> map_sum id fst (GoodWillHunting_forward tiny_model drop_all \<lparr>shape = [1, 1], data = [0]\<rparr>)
     = Inr \<lparr>shape = [1, 1, 1], data = [0]\<rparr>
   \<and> map_sum id fst (GoodWillHunting_forward tiny_model keep_all \<lparr>shape = [1, 1], data = [0]\<rparr>)
     \<noteq> map_sum id fst (GoodWillHunting_forward tiny_model drop_all \<lparr>shape = [1, 1], data = [0]\<rparr>)"
proof -
  have k: "map_sum id fst (GoodWillHunting_forward tiny_model keep_all \<lparr>shape = [1, 1], data = [0]\<rparr>)
     = Inr \<lparr>shape = [1, 1, 1], data = [2 * sqrt (1 / 2)]\<rparr>"
    unfolding tiny_model_scores tiny_keep
    by (simp add: tiny_decoder_explicit Linear_forward_def tabulate_def elt_def ravel_def Let_def)
  have d: "map_sum id fst (GoodWillHunting_forward tiny_model drop_all \<lparr>shape = [1, 1], data = [0]\<rparr>)
     = Inr \<lparr>shape = [1, 1, 1], data = [0]\<rparr>"
    unfolding tiny_model_scores tiny_drop
    by (simp add: tiny_decoder_explicit Linear_forward_def tabulate_def elt_def ravel_def Let_def)
  show ?thesis unfolding k d by simp
qed

text \<open>
  C5, as the code has it. When \<open>forward\<close> returns scores of shape
  \<open>[batch, len, classes]\<close> for the decoder's class count, \<open>train_epoch\<close> registers the
  arg-max class index of every position, the targets and the input with the scorer. It
  then flattens the scores to \<open>[batch * len, classes]\<close> and the targets to one
  dimension, and returns what the criterion returns for them: the criterion's loss,
  whatever its sign, together with the updated scorer. It raises what the scorer
  raises, what \<open>view(-1)\<close> raises on targets whose strides do not allow it, and what
  the criterion raises. No parameter is updated.
\<close>

theorem train_epoch_delegates:
  assumes fwd: "GoodWillHunting_forward self g src = Inr (output, g')"
    and sh: "shape output = [batch, len, classes]" and cls: "0 < classes"
    and od: "out_dim (GoodWillHunting.decoder self) = int classes"
  shows "\<exists>predicted. torch_argmax output 2 = Inr predicted \<and> shape predicted = [batch, len]
           \<and> train_epoch self g src trg (Some scorer) (Some criterion)
             = (case register_batch scorer (scorer_state scorer) predicted trg src of
                  Inl e \<Rightarrow> Inl e
                | Inr st \<Rightarrow>
                    if flat_viewable trg
                    then (case criterion (output\<lparr>shape := [batch * len, classes]\<rparr>)
                                         \<lparr>shape = [prod_list (shape trg)], data = data trg\<rparr> of
                            Inl e \<Rightarrow> Inl e
                          | Inr loss \<Rightarrow> Inr (loss, scorer\<lparr>scorer_state := st\<rparr>, g'))
                    else Inl (RuntimeError
                           ''view size is not compatible with input tensor size and stride''))"
proof -
  from torch_argmax_last [OF sh cls]
  obtain predicted where p: "torch_argmax output 2 = Inr predicted"
    and sp: "shape predicted = [batch, len]" by blast
  have "train_epoch self g src trg (Some scorer) (Some criterion)
             = (case register_batch scorer (scorer_state scorer) predicted trg src of
                  Inl e \<Rightarrow> Inl e
                | Inr st \<Rightarrow>
                    if flat_viewable trg
                    then (case criterion (output\<lparr>shape := [batch * len, classes]\<rparr>)
                                         \<lparr>shape = [prod_list (shape trg)], data = data trg\<rparr> of
                            Inl e \<Rightarrow> Inl e
                          | Inr loss \<Rightarrow> Inr (loss, scorer\<lparr>scorer_state := st\<rparr>, g'))
                    else Inl (RuntimeError
                           ''view size is not compatible with input tensor size and stride''))"
    by (simp add: train_epoch_def GoodWillHunting_call_def fwd p od
          view_flatten_scores [OF sh cls] view_flat_viewable split: sum.splits)
  with p sp show ?thesis by blast
qed

theorem train_epoch_delegates_witness:
  "\<exists>g'. GoodWillHunting_forward tiny_model keep_all \<lparr>shape = [1, 1], data = [0]\<rparr>
         = Inr (\<lparr>shape = [1, 1, 1], data = [2 * sqrt (1 / 2)]\<rparr>, g')
     \<and> shape \<lparr>shape = [1, 1, 1], data = [2 * sqrt (1 / 2)]\<rparr> = [1, 1, 1] \<and> (0::nat) < 1
     \<and> out_dim (GoodWillHunting.decoder tiny_model) = int 1
     \<and> (\<exists>predicted. torch_argmax \<lparr>shape = [1, 1, 1], data = [2 * sqrt (1 / 2)]\<rparr> 2 = Inr predicted
           \<and> shape predicted = [1, 1]
           \<and> train_epoch tiny_model keep_all \<lparr>shape = [1, 1], data = [0]\<rparr>
                \<lparr>shape = [1, 1], data = [0], flat_viewable = True\<rparr>
                (Some accepting_scorer) (Some nll_loss)
             = Inr (Some (- (2 * sqrt (1 / 2))), accepting_scorer, g')
           \<and> train_epoch tiny_model keep_all \<lparr>shape = [1, 1], data = [0]\<rparr>
                \<lparr>shape = [1, 1], data = [0], flat_viewable = False\<rparr>
                (Some accepting_scorer) (Some nll_loss)
             = Inl (RuntimeError
                 ''view size is not compatible with input tensor size and stride''))"
proof -
  from tiny_model_forward_keep obtain g'
    where f: "GoodWillHunting_forward tiny_model keep_all \<lparr>shape = [1, 1], data = [0]\<rparr>
         = Inr (\<lparr>shape = [1, 1, 1], data = [2 * sqrt (1 / 2)]\<rparr>, g')" ..
  have sh: "shape \<lparr>shape = [1, 1, 1], data = [2 * sqrt (1 / 2)]\<rparr> = [1, 1, 1]" by simp
  have cls: "(0::nat) < 1" by simp
  note t = train_epoch_delegates [OF f sh cls tiny_model_out_dim,
      where scorer = accepting_scorer and criterion = nll_loss]
  from t [of "\<lparr>shape = [1, 1], data = [0], flat_viewable = True\<rparr>"]
  obtain predicted
    where p: "torch_argmax \<lparr>shape = [1, 1, 1], data = [2 * sqrt (1 / 2)]\<rparr> 2 = Inr predicted"
      and sp: "shape predicted = [1, 1]"
      and a: "train_epoch tiny_model keep_all \<lparr>shape = [1, 1], data = [0]\<rparr>
                \<lparr>shape = [1, 1], data = [0], flat_viewable = True\<rparr>
                (Some accepting_scorer) (Some nll_loss)
             = Inr (Some (- (2 * sqrt (1 / 2))), accepting_scorer, g')"
    using nll_loss_tiny by (auto simp: accepting_scorer_def)
  from t [of "\<lparr>shape = [1, 1], data = [0], flat_viewable = False\<rparr>"]
  have b: "train_epoch tiny_model keep_all \<lparr>shape = [1, 1], data = [0]\<rparr>
                \<lparr>shape = [1, 1], data = [0], flat_viewable = False\<rparr>
                (Some accepting_scorer) (Some nll_loss)
             = Inl (RuntimeError
                 ''view size is not compatible with input tensor size and stride'')"
    by (auto simp: accepting_scorer_def)
  from f sh cls tiny_model_out_dim p sp a b show ?thesis by blast
qed

text \<open>
  C5 as stated fails: the loss is the criterion's, and for \<open>nn.NLLLoss\<close> on the scores
  of this model, which no softmax has normalised, it is negative on a batch whose
  targets fit the scores. (On targets that do not fit, that criterion raises, and
  \<open>train_epoch_nll_mismatch\<close> shows the error reaching the caller.)
\<close>

theorem train_epoch_counterexample:
  "map_sum id fst
     (train_epoch tiny_model keep_all \<lparr>shape = [1, 1], data = [0]\<rparr>
        \<lparr>shape = [1, 1], data = [0], flat_viewable = True\<rparr>
        (Some accepting_scorer) (Some nll_loss))
     = Inr (Some (- (2 * sqrt (1 / 2))))
   \<and> - (2 * sqrt (1 / 2)) < (0::real)"
proof -
  from tiny_model_forward_keep obtain g'
    where f: "GoodWillHunting_forward tiny_model keep_all \<lparr>shape = [1, 1], data = [0]\<rparr>
         = Inr (\<lparr>shape = [1, 1, 1], data = [2 * sqrt (1 / 2)]\<rparr>, g')" ..
  have sh: "shape \<lparr>shape = [1, 1, 1], data = [2 * sqrt (1 / 2)]\<rparr> = [1, 1, 1]" by simp
  have cls: "(0::nat) < 1" by simp
  from train_epoch_steps [OF f sh cls tiny_model_out_dim,
      of "\<lparr>shape = [1, 1], data = [0], flat_viewable = True\<rparr>" accepting_scorer nll_loss]
    nll_loss_tiny
  have "train_epoch tiny_model keep_all \<lparr>shape = [1, 1], data = [0]\<rparr>
          \<lparr>shape = [1, 1], data = [0], flat_viewable = True\<rparr>
          (Some accepting_scorer) (Some nll_loss)
        = Inr (Some (- (2 * sqrt (1 / 2))), accepting_scorer, g')"
    by (auto simp: accepting_scorer_def)
  then show ?thesis by simp
qed

end
